theory Spec2Isabelle
  imports Main "HOL-Library.AList"
begin

section \<open>Data model (types.ts)\<close>

text \<open>
  The interfaces of the type module become records. Several interfaces share field names
  (\<open>id\<close>, \<open>name\<close>, \<open>method\<close>, \<open>url\<close>, ...), so the fields of all but the draft type
  \<open>HttpRequest\<close> carry a short prefix. An optional field (\<open>parent_id?\<close>, \<open>username?\<close>) is an
  \<open>option\<close>; \<open>None\<close> stands for both \<open>undefined\<close> and \<open>null\<close>. Strings are byte strings.
  The fields of \<open>AuthData\<close> are printed by template literals, which tell \<open>undefined\<close> from
  \<open>null\<close> (a stored document parsed by \<open>JSON.parse\<close> may hold \<open>null\<close>), so they keep
  the two apart.
\<close>

datatype json_string = Undefined | Null | Str string

record KeyValue =
  kv_key :: string
  kv_value :: string
  kv_enabled :: bool

record FormDataField =
  fd_key :: string
  fd_value :: string
  fd_type :: string
  fd_enabled :: bool
  fd_file_path :: "string option"

record AuthData =
  username :: json_string
  password :: json_string
  token :: json_string
  auth_key :: json_string
  value_field :: json_string

record HttpRequest =
  "method" :: string
  url :: string
  headers :: "KeyValue list"
  body :: string
  body_type :: string
  auth_type :: string
  auth_data :: AuthData
  form_data :: "FormDataField list option"

record Cookie =
  ck_name :: string
  ck_value :: string
  ck_domain :: "string option"
  ck_path :: "string option"

record HttpResponse =
  status :: int
  status_text :: string
  response_headers :: "(string \<times> string) list"
  response_body :: string
  response_time :: int
  response_size :: int
  cookies :: "Cookie list"

record Collection =
  c_id :: string
  c_name :: string
  c_parent_id :: "string option"
  c_is_folder :: bool
  c_created_at :: string

record Request =
  r_id :: string
  r_collection_id :: string
  r_name :: string
  r_method :: string
  r_url :: string
  r_headers :: string
  r_body :: string
  r_body_type :: string
  r_auth_type :: string
  r_auth_data :: string
  r_created_at :: string
  r_updated_at :: string

record Environment =
  e_id :: string
  e_name :: string
  e_variables :: string
  e_is_active :: bool
  e_created_at :: string

record EnvironmentVariable =
  ev_key :: string
  ev_value :: string

record History =
  h_id :: string
  h_method :: string
  h_url :: string
  h_status :: int
  h_response_time :: int
  h_created_at :: string

datatype node_data = CollectionData Collection | RequestData Request

datatype TreeNode = TreeNode
  (tn_key: string) (tn_label: string) (tn_data: node_data) (tn_icon: "string option")
  (tn_children: "TreeNode list option") (tn_type: string)

section \<open>The store (stores/app.ts)\<close>

record RequestTab =
  tab_id :: string
  tab_name :: string
  request :: HttpRequest
  response :: "HttpResponse option"
  requestId :: "string option"
  isLoading :: bool
  isDirty :: bool

text \<open>
  The \<open>requests\<close> mirror is a JavaScript \<open>Map\<close>: an association list, where
  \<open>AList.update\<close> replaces the value of a present key in place and appends a new key, as
  \<open>Map.set\<close> does. \<open>activeTabIndex\<close> is a JavaScript number that the store only ever
  assigns integers to; it is an \<open>int\<close> because \<open>closeTab\<close> can decrement it below zero.
\<close>

record store =
  collections :: "Collection list"
  requests :: "(string \<times> Request list) list"
  environments :: "Environment list"
  activeEnvironment :: "Environment option"
  history :: "History list"
  openTabs :: "RequestTab list"
  activeTabIndex :: int

definition empty_auth :: AuthData where
  "empty_auth = \<lparr>username = Undefined, password = Undefined, token = Undefined,
     auth_key = Undefined, value_field = Undefined\<rparr>"

definition default_request :: HttpRequest where
  "default_request = \<lparr>method = ''GET'', url = '''', headers = [], body = '''',
     body_type = ''none'', auth_type = ''none'', auth_data = empty_auth,
     form_data = Some []\<rparr>"

text \<open>The store as \<open>defineStore\<close> builds it: one empty tab, whose id is a fresh UUID.\<close>

definition initial_store :: "string \<Rightarrow> store" where
  "initial_store uuid = \<lparr>collections = [], requests = [], environments = [],
     activeEnvironment = None, history = [],
     openTabs = [\<lparr>tab_id = uuid, tab_name = ''New Request'', request = default_request,
       response = None, requestId = None, isLoading = False, isDirty = False\<rparr>],
     activeTabIndex = 0\<rparr>"

subsection \<open>The computed properties of the current tab\<close>

text \<open>\<open>openTabs.value[i]\<close>: \<open>undefined\<close> (\<open>None\<close>) when \<open>i\<close> is not an index of the array.\<close>

definition tab_at :: "RequestTab list \<Rightarrow> int \<Rightarrow> RequestTab option" where
  "tab_at tabs i = (if 0 \<le> i \<and> i < int (length tabs) then Some (tabs ! nat i) else None)"

text \<open>The setters share one shape: \<open>if (openTabs.value[activeTabIndex.value]) { ... }\<close>.\<close>

definition update_active :: "(RequestTab \<Rightarrow> RequestTab) \<Rightarrow> store \<Rightarrow> store" where
  "update_active f s =
     (case tab_at (openTabs s) (activeTabIndex s) of
        None \<Rightarrow> s
      | Some t \<Rightarrow> s\<lparr>openTabs := (openTabs s)[nat (activeTabIndex s) := f t]\<rparr>)"

definition currentRequest :: "store \<Rightarrow> HttpRequest" where
  "currentRequest s =
     (case tab_at (openTabs s) (activeTabIndex s) of
        None \<Rightarrow> default_request
      | Some t \<Rightarrow> request t)"

definition set_currentRequest :: "HttpRequest \<Rightarrow> store \<Rightarrow> store" where
  "set_currentRequest v = update_active (\<lambda>t. t\<lparr>request := v, isDirty := True\<rparr>)"

definition currentResponse :: "store \<Rightarrow> HttpResponse option" where
  "currentResponse s =
     (case tab_at (openTabs s) (activeTabIndex s) of
        None \<Rightarrow> None
      | Some t \<Rightarrow> response t)"

definition set_currentResponse :: "HttpResponse option \<Rightarrow> store \<Rightarrow> store" where
  "set_currentResponse v = update_active (\<lambda>t. t\<lparr>response := v\<rparr>)"

text \<open>A string is truthy when it is present and not empty.\<close>

definition truthy :: "string option \<Rightarrow> bool" where
  "truthy x = (case x of None \<Rightarrow> False | Some v \<Rightarrow> v \<noteq> '''')"

definition selectedRequestId :: "store \<Rightarrow> string option" where
  "selectedRequestId s =
     (case tab_at (openTabs s) (activeTabIndex s) of
        None \<Rightarrow> None
      | Some t \<Rightarrow> (if truthy (requestId t) then requestId t else None))"

definition set_selectedRequestId :: "string option \<Rightarrow> store \<Rightarrow> store" where
  "set_selectedRequestId v = update_active (\<lambda>t. t\<lparr>requestId := v\<rparr>)"

definition set_isLoading :: "bool \<Rightarrow> store \<Rightarrow> store" where
  "set_isLoading v = update_active (\<lambda>t. t\<lparr>isLoading := v\<rparr>)"

subsection \<open>Tab management\<close>

definition resetCurrentRequest :: "store \<Rightarrow> store" where
  "resetCurrentRequest s =
     set_selectedRequestId None (set_currentResponse None (set_currentRequest default_request s))"

text \<open>
  \<open>Array.prototype.splice(index, 1)\<close> on an integer index: a negative index counts from
  the end (clamped at 0), an index past the end removes nothing.
\<close>

definition splice1 :: "int \<Rightarrow> 'a list \<Rightarrow> 'a list" where
  "splice1 index xs =
     (let len = int (length xs);
          start = (if index < 0 then max (len + index) 0 else min index len)
      in take (nat start) xs @ drop (Suc (nat start)) xs)"

definition closeTab :: "int \<Rightarrow> store \<Rightarrow> store" where
  "closeTab index s =
     (if length (openTabs s) = 1 then
        (let s1 = resetCurrentRequest s
         in s1\<lparr>openTabs := (openTabs s1)[0 := (openTabs s1 ! 0)\<lparr>tab_name := ''New Request'',
                  isDirty := False\<rparr>]\<rparr>)
      else
        (let tabs = splice1 index (openTabs s);
             a = activeTabIndex s
         in s\<lparr>openTabs := tabs,
               activeTabIndex :=
                 (if a \<ge> int (length tabs) then int (length tabs) - 1
                  else if a > index then a - 1
                  else a)\<rparr>))"

definition switchTab :: "int \<Rightarrow> store \<Rightarrow> store" where
  "switchTab index s =
     (if 0 \<le> index \<and> index < int (length (openTabs s)) then s\<lparr>activeTabIndex := index\<rparr>
      else s)"

definition updateTabName :: "int \<Rightarrow> string \<Rightarrow> store \<Rightarrow> store" where
  "updateTabName index name s =
     (case tab_at (openTabs s) index of
        None \<Rightarrow> s
      | Some t \<Rightarrow> s\<lparr>openTabs := (openTabs s)[nat index := t\<lparr>tab_name := name\<rparr>]\<rparr>)"

text \<open>
  The session invariant of the data model: the tab list is not empty and the active index
  names one of its tabs.
\<close>

definition tabs_ok :: "store \<Rightarrow> bool" where
  "tabs_ok s = (openTabs s \<noteq> [] \<and> 0 \<le> activeTabIndex s
     \<and> activeTabIndex s < int (length (openTabs s)))"

subsection \<open>The collaborators\<close>

text \<open>
  The backend behind \<open>invoke\<close>, the JSON codec, \<open>crypto.randomUUID\<close> and the clock are
  collaborators, not part of the store. A backend is the record of the answers
  it gives to each command while one store action runs (\<open>Inl\<close>: the call rejects); the
  fresh UUID and the current time are arguments of the actions that draw them. Every store
  action returns, next to the new store, the list of the commands it issued, in order.
\<close>

datatype error = BackendError string | SyntaxError

datatype call =
    GetAllCollections
  | CreateCollection Collection
  | DeleteCollection string
  | GetRequestsByCollection string
  | SaveRequest Request
  | GetRequest string
  | DeleteRequest string
  | InterpolateVariables string
  | SendHttpRequest HttpRequest
  | GetAllEnvironments
  | SaveEnvironment Environment
  | DeleteEnvironment string
  | AddHistory History
  | GetHistory nat
  | ClearHistory

record backend =
  get_all_collections :: "error + Collection list"
  create_collection :: "Collection \<Rightarrow> error + unit"
  delete_collection :: "string \<Rightarrow> error + unit"
  get_requests_by_collection :: "string \<Rightarrow> error + Request list"
  save_request :: "Request \<Rightarrow> error + unit"
  get_request :: "string \<Rightarrow> error + Request option"
  delete_request :: "string \<Rightarrow> error + unit"
  interpolate_variables :: "string \<Rightarrow> error + string"
  send_http_request :: "HttpRequest \<Rightarrow> error + HttpResponse"
  get_all_environments :: "error + Environment list"
  save_environment :: "Environment \<Rightarrow> error + unit"
  delete_environment :: "string \<Rightarrow> error + unit"
  add_history :: "History \<Rightarrow> error + unit"
  get_history :: "nat \<Rightarrow> error + History list"
  clear_history :: "error + unit"

text \<open>\<open>JSON.stringify\<close> and \<open>JSON.parse\<close> at the types the store uses them; a parse that
  throws is \<open>None\<close>.\<close>

record json =
  stringify_headers :: "KeyValue list \<Rightarrow> string"
  parse_headers :: "string \<Rightarrow> KeyValue list option"
  stringify_auth :: "AuthData \<Rightarrow> string"
  parse_auth :: "string \<Rightarrow> AuthData option"
  stringify_variables :: "EnvironmentVariable list \<Rightarrow> string"

subsection \<open>Collections and requests\<close>

definition loadRequestsByCollection :: "backend \<Rightarrow> string \<Rightarrow> store \<Rightarrow> call list \<times> store" where
  "loadRequestsByCollection be collectionId s =
     ([GetRequestsByCollection collectionId],
      case get_requests_by_collection be collectionId of
        Inl e \<Rightarrow> s
      | Inr result \<Rightarrow> s\<lparr>requests := AList.update collectionId result (requests s)\<rparr>)"

text \<open>The loop \<open>for (const collection of result)\<close> of \<open>loadCollections\<close>.\<close>

fun load_each :: "backend \<Rightarrow> Collection list \<Rightarrow> store \<Rightarrow> call list \<times> store" where
  "load_each be [] s = ([], s)"
| "load_each be (c # cs) s =
     (let (t1, s1) = loadRequestsByCollection be (c_id c) s;
          (t2, s2) = load_each be cs s1
      in (t1 @ t2, s2))"

definition loadCollections :: "backend \<Rightarrow> store \<Rightarrow> call list \<times> store" where
  "loadCollections be s =
     (case get_all_collections be of
        Inl e \<Rightarrow> ([GetAllCollections], s)
      | Inr result \<Rightarrow>
          (let (t, s1) = load_each be result (s\<lparr>collections := result\<rparr>)
           in (GetAllCollections # t, s1)))"

definition createCollection ::
  "backend \<Rightarrow> string \<Rightarrow> string \<Rightarrow> string \<Rightarrow> string option \<Rightarrow> bool \<Rightarrow> store \<Rightarrow> call list \<times> store" where
  "createCollection be uuid now name parentId isFolder s =
     (let collection = \<lparr>c_id = uuid, c_name = name, c_parent_id = parentId,
            c_is_folder = isFolder, c_created_at = now\<rparr>
      in case create_collection be collection of
           Inl e \<Rightarrow> ([CreateCollection collection], s)
         | Inr u \<Rightarrow>
             (let (t, s1) = loadCollections be s in (CreateCollection collection # t, s1)))"

definition deleteCollection :: "backend \<Rightarrow> string \<Rightarrow> store \<Rightarrow> call list \<times> store" where
  "deleteCollection be ident s =
     (case delete_collection be ident of
        Inl e \<Rightarrow> ([DeleteCollection ident], s)
      | Inr u \<Rightarrow> (let (t, s1) = loadCollections be s in (DeleteCollection ident # t, s1)))"

definition saveCurrentRequest ::
  "backend \<Rightarrow> json \<Rightarrow> string \<Rightarrow> string \<Rightarrow> string \<Rightarrow> string \<Rightarrow> store \<Rightarrow> call list \<times> store" where
  "saveCurrentRequest be js uuid now name collectionId s =
     (let cr = currentRequest s;
          req = \<lparr>r_id = (case selectedRequestId s of None \<Rightarrow> uuid | Some i \<Rightarrow> i),
            r_collection_id = collectionId, r_name = name, r_method = method cr,
            r_url = url cr, r_headers = stringify_headers js (headers cr), r_body = body cr,
            r_body_type = body_type cr, r_auth_type = auth_type cr,
            r_auth_data = stringify_auth js (auth_data cr), r_created_at = now,
            r_updated_at = now\<rparr>
      in case save_request be req of
           Inl e \<Rightarrow> ([SaveRequest req], s)
         | Inr u \<Rightarrow>
             (let (t, s1) = loadRequestsByCollection be collectionId s;
                  s2 = set_selectedRequestId (Some (r_id req)) s1
              in (SaveRequest req # t,
                  update_active (\<lambda>tab. tab\<lparr>tab_name := name, isDirty := False\<rparr>) s2)))"

text \<open>The draft built from a persisted request, in \<open>loadRequest\<close> and in \<open>createNewTab\<close>;
  \<open>JSON.parse\<close> may throw.\<close>

definition hydrate :: "json \<Rightarrow> Request \<Rightarrow> error + HttpRequest" where
  "hydrate js r =
     (case parse_headers js (if r_headers r = '''' then ''[]'' else r_headers r) of
        None \<Rightarrow> Inl SyntaxError
      | Some hs \<Rightarrow>
          (case parse_auth js (if r_auth_data r = '''' then ''{}'' else r_auth_data r) of
             None \<Rightarrow> Inl SyntaxError
           | Some ad \<Rightarrow>
               Inr \<lparr>method = r_method r, url = r_url r, headers = hs, body = r_body r,
                 body_type = r_body_type r, auth_type = r_auth_type r, auth_data = ad,
                 form_data = Some []\<rparr>))"

definition createNewTab ::
  "json \<Rightarrow> string \<Rightarrow> string \<Rightarrow> Request option \<Rightarrow> store \<Rightarrow> error + store" where
  "createNewTab js uuid name req s =
     (case (case req of None \<Rightarrow> Inr default_request | Some r \<Rightarrow> hydrate js r) of
        Inl e \<Rightarrow> Inl e
      | Inr d \<Rightarrow>
          (let newTab = \<lparr>tab_id = uuid,
                 tab_name = (case req of None \<Rightarrow> name
                   | Some r \<Rightarrow> if r_name r \<noteq> '''' then r_name r else name),
                 request = d, response = None,
                 requestId = (case req of None \<Rightarrow> None
                   | Some r \<Rightarrow> if r_id r \<noteq> '''' then Some (r_id r) else None),
                 isLoading = False, isDirty = False\<rparr>;
               tabs = openTabs s @ [newTab]
           in Inr (s\<lparr>openTabs := tabs, activeTabIndex := int (length tabs) - 1\<rparr>)))"

text \<open>\<open>Array.prototype.findIndex\<close>: the first index whose element passes, or \<open>-1\<close>.\<close>

fun findIndex :: "('a \<Rightarrow> bool) \<Rightarrow> 'a list \<Rightarrow> int" where
  "findIndex P [] = - 1"
| "findIndex P (x # xs) =
     (if P x then 0 else (let i = findIndex P xs in if i = - 1 then - 1 else i + 1))"

definition loadRequest ::
  "backend \<Rightarrow> json \<Rightarrow> string \<Rightarrow> string \<Rightarrow> bool \<Rightarrow> store \<Rightarrow> call list \<times> store" where
  "loadRequest be js uuid ident openInNewTab s =
     ([GetRequest ident],
      case get_request be ident of
        Inl e \<Rightarrow> s
      | Inr None \<Rightarrow> s
      | Inr (Some req) \<Rightarrow>
          (let existingTabIndex = findIndex (\<lambda>tab. requestId tab = Some ident) (openTabs s);
               active = tab_at (openTabs s) (activeTabIndex s)
           in if existingTabIndex \<noteq> - 1 then s\<lparr>activeTabIndex := existingTabIndex\<rparr>
              else if openInNewTab
                   \<or> (case active of None \<Rightarrow> False | Some t \<Rightarrow> truthy (requestId t))
                   \<or> (case active of None \<Rightarrow> False | Some t \<Rightarrow> isDirty t)
              then (case createNewTab js uuid (r_name req) (Some req) s of
                      Inl e \<Rightarrow> s
                    | Inr s1 \<Rightarrow> s1)
              else (let s1 = set_selectedRequestId (Some ident) s
                    in case hydrate js req of
                         Inl e \<Rightarrow> s1
                       | Inr d \<Rightarrow>
                           update_active (\<lambda>tab. tab\<lparr>tab_name := r_name req, isDirty := False\<rparr>)
                             (set_currentRequest d s1))))"

definition deleteRequest :: "backend \<Rightarrow> string \<Rightarrow> string \<Rightarrow> store \<Rightarrow> call list \<times> store" where
  "deleteRequest be ident collectionId s =
     (case delete_request be ident of
        Inl e \<Rightarrow> ([DeleteRequest ident], s)
      | Inr u \<Rightarrow>
          (let (t, s1) = loadRequestsByCollection be collectionId s
           in (DeleteRequest ident # t,
               if selectedRequestId s1 = Some ident
               then resetCurrentRequest (set_selectedRequestId None s1)
               else s1)))"

subsection \<open>Environments\<close>

definition loadEnvironments :: "backend \<Rightarrow> store \<Rightarrow> call list \<times> store" where
  "loadEnvironments be s =
     ([GetAllEnvironments],
      case get_all_environments be of
        Inl e \<Rightarrow> s
      | Inr result \<Rightarrow> s\<lparr>environments := result, activeEnvironment := find e_is_active result\<rparr>)"

definition saveEnvironment ::
  "backend \<Rightarrow> json \<Rightarrow> string \<Rightarrow> string \<Rightarrow> string \<Rightarrow> EnvironmentVariable list \<Rightarrow> bool \<Rightarrow> store
     \<Rightarrow> call list \<times> store" where
  "saveEnvironment be js uuid now name variables isActive s =
     (let env = \<lparr>e_id = uuid, e_name = name, e_variables = stringify_variables js variables,
            e_is_active = isActive, e_created_at = now\<rparr>
      in case save_environment be env of
           Inl e \<Rightarrow> ([SaveEnvironment env], s)
         | Inr u \<Rightarrow> (let (t, s1) = loadEnvironments be s in (SaveEnvironment env # t, s1)))"

definition updateEnvironment ::
  "backend \<Rightarrow> json \<Rightarrow> string \<Rightarrow> string \<Rightarrow> EnvironmentVariable list \<Rightarrow> store \<Rightarrow> call list \<times> store" where
  "updateEnvironment be js ident name variables s =
     (case find (\<lambda>e. e_id e = ident) (environments s) of
        None \<Rightarrow> ([], s)
      | Some env \<Rightarrow>
          (let updated = env\<lparr>e_name := name, e_variables := stringify_variables js variables\<rparr>
           in case save_environment be updated of
                Inl e \<Rightarrow> ([SaveEnvironment updated], s)
              | Inr u \<Rightarrow>
                  (let (t, s1) = loadEnvironments be s in (SaveEnvironment updated # t, s1))))"

definition setActiveEnvironment :: "backend \<Rightarrow> string \<Rightarrow> store \<Rightarrow> call list \<times> store" where
  "setActiveEnvironment be ident s =
     (case find (\<lambda>e. e_id e = ident) (environments s) of
        None \<Rightarrow> ([], s)
      | Some env \<Rightarrow>
          (let updated = env\<lparr>e_is_active := True\<rparr>
           in case save_environment be updated of
                Inl e \<Rightarrow> ([SaveEnvironment updated], s)
              | Inr u \<Rightarrow>
                  (let (t, s1) = loadEnvironments be s in (SaveEnvironment updated # t, s1))))"

definition deleteEnvironment :: "backend \<Rightarrow> string \<Rightarrow> store \<Rightarrow> call list \<times> store" where
  "deleteEnvironment be ident s =
     (case delete_environment be ident of
        Inl e \<Rightarrow> ([DeleteEnvironment ident], s)
      | Inr u \<Rightarrow> (let (t, s1) = loadEnvironments be s in (DeleteEnvironment ident # t, s1)))"

subsection \<open>History\<close>

definition loadHistory :: "backend \<Rightarrow> nat \<Rightarrow> store \<Rightarrow> call list \<times> store" where
  "loadHistory be limit s =
     ([GetHistory limit],
      case get_history be limit of
        Inl e \<Rightarrow> s
      | Inr result \<Rightarrow> s\<lparr>history := result\<rparr>)"

definition addHistory :: "backend \<Rightarrow> History \<Rightarrow> store \<Rightarrow> call list \<times> store" where
  "addHistory be historyItem s =
     (case add_history be historyItem of
        Inl e \<Rightarrow> ([AddHistory historyItem], s)
      | Inr u \<Rightarrow> (let (t, s1) = loadHistory be 50 s in (AddHistory historyItem # t, s1)))"

definition clearHistory :: "backend \<Rightarrow> store \<Rightarrow> call list \<times> store" where
  "clearHistory be s =
     ([ClearHistory],
      case clear_history be of
        Inl e \<Rightarrow> s
      | Inr u \<Rightarrow> s\<lparr>history := []\<rparr>)"

subsection \<open>Sending\<close>

text \<open>
  The draft's \<open>headers\<close> array holds references to header objects. In \<open>sendRequest\<close> the
  objects are kept in an object store (object \<open>a\<close> at address \<open>a\<close>) and an array is a list
  of addresses, so that the model shows which objects a write reaches. The loop
  \<open>for (let i = 0; i < headers.length; i++) headers[i].value = await invoke(...)\<close>
  writes the object that \<open>headers[i]\<close> refers to and stops at the first call that rejects.
\<close>

fun interpolate_headers ::
  "backend \<Rightarrow> nat list \<Rightarrow> KeyValue list \<Rightarrow> call list \<times> error option \<times> KeyValue list" where
  "interpolate_headers be [] objs = ([], None, objs)"
| "interpolate_headers be (a # as) objs =
     (let text = kv_value (objs ! a)
      in case interpolate_variables be text of
           Inl e \<Rightarrow> ([InterpolateVariables text], Some e, objs)
         | Inr v \<Rightarrow>
             (let (t, r, objs1) =
                    interpolate_headers be as (objs[a := (objs ! a)\<lparr>kv_value := v\<rparr>])
              in (InterpolateVariables text # t, r, objs1)))"

text \<open>
  The \<open>try\<close> block of \<open>sendRequest\<close> after its first two assignments. The result is the
  commands issued, the error thrown (\<open>None\<close>: the block completes) and the store.
  \<open>refs\<close> is the draft's own array; \<open>hdrs\<close> is \<open>[...currentRequest.value.headers]\<close>, a new
  array of the same references.
\<close>

definition send_try :: "backend \<Rightarrow> string \<Rightarrow> string \<Rightarrow> store \<Rightarrow> call list \<times> error option \<times> store" where
  "send_try be uuid now s =
     (let env = (activeEnvironment s \<noteq> None);
          url0 = url (currentRequest s);
          (t1, r1) = (if env then ([InterpolateVariables url0], interpolate_variables be url0)
                      else ([], Inr url0))
      in case r1 of
           Inl e \<Rightarrow> (t1, Some e, s)
         | Inr url1 \<Rightarrow>
        (let objs = headers (currentRequest s);
             refs = [0..<length objs];
             hdrs = refs;
             (t2, r2, objs1) = (if env then interpolate_headers be hdrs objs
                                else ([], None, objs));
             s1 = update_active
                   (\<lambda>tab. tab\<lparr>request := (request tab)\<lparr>headers := map (\<lambda>a. objs1 ! a) refs\<rparr>\<rparr>) s
         in case r2 of
              Some e \<Rightarrow> (t1 @ t2, Some e, s1)
            | None \<Rightarrow>
           (let body0 = body (currentRequest s1);
                (t3, r3) = (if env \<and> body0 \<noteq> ''''
                            then ([InterpolateVariables body0], interpolate_variables be body0)
                            else ([], Inr body0))
            in case r3 of
                 Inl e \<Rightarrow> (t1 @ t2 @ t3, Some e, s1)
               | Inr body1 \<Rightarrow>
              (let requestToSend = (currentRequest s1)\<lparr>url := url1,
                     headers := map (\<lambda>a. objs1 ! a) hdrs, body := body1\<rparr>;
                   t4 = t1 @ t2 @ t3 @ [SendHttpRequest requestToSend]
               in case send_http_request be requestToSend of
                    Inl e \<Rightarrow> (t4, Some e, s1)
                  | Inr resp \<Rightarrow>
                 (let s2 = set_currentResponse (Some resp) s1;
                      (t5, s3) = addHistory be
                        \<lparr>h_id = uuid, h_method = method (currentRequest s2),
                         h_url = url (currentRequest s2), h_status = status resp,
                         h_response_time = response_time resp, h_created_at = now\<rparr> s2
                  in (t4 @ t5, None, s3))))))"

text \<open>\<open>sendRequest\<close>: the error is rethrown after \<open>finally\<close> has cleared the loading flag.\<close>

definition sendRequest :: "backend \<Rightarrow> string \<Rightarrow> string \<Rightarrow> store \<Rightarrow> call list \<times> error option \<times> store" where
  "sendRequest be uuid now s =
     (let (t, r, s1) = send_try be uuid now (set_currentResponse None (set_isLoading True s))
      in (t, r, set_isLoading False s1))"

text \<open>Reading a command log: the requests dispatched and the history entries appended.\<close>

fun dispatched :: "call list \<Rightarrow> HttpRequest list" where
  "dispatched [] = []"
| "dispatched (SendHttpRequest r # cs) = r # dispatched cs"
| "dispatched (c # cs) = dispatched cs"

fun appended :: "call list \<Rightarrow> History list" where
  "appended [] = []"
| "appended (AddHistory h # cs) = h # appended cs"
| "appended (c # cs) = appended cs"

fun is_interpolate :: "call \<Rightarrow> bool" where
  "is_interpolate (InterpolateVariables t) = True"
| "is_interpolate c = False"

text \<open>The text the backend resolves \<open>t\<close> to; \<open>t\<close> itself when the command rejects.\<close>

definition resolved :: "backend \<Rightarrow> string \<Rightarrow> string" where
  "resolved be t = (case interpolate_variables be t of Inl e \<Rightarrow> t | Inr v \<Rightarrow> v)"

text \<open>What \<open>addHistory\<close> issues after \<open>add_history\<close>: the reload, unless the append rejects.\<close>

definition reload_after :: "backend \<Rightarrow> History \<Rightarrow> call list" where
  "reload_after be h = (case add_history be h of Inl e \<Rightarrow> [] | Inr u \<Rightarrow> [GetHistory 50])"

subsection \<open>Editing the draft (components/RequestBuilder.vue)\<close>

text \<open>
  The request builder edits the draft through the store's getter:
  \<open>v-model="store.currentRequest.method"\<close>, \<open>store.currentRequest.headers.push(...)\<close>.
  Reading \<open>store.currentRequest\<close> runs the computed getter, and the assignment or \<open>push\<close>
  then writes the object the getter returned: the active tab's draft, or a fresh default
  draft that is dropped when no tab is active. The computed setter is not called.
\<close>

definition edit_draft :: "(HttpRequest \<Rightarrow> HttpRequest) \<Rightarrow> store \<Rightarrow> store" where
  "edit_draft f = update_active (\<lambda>tab. tab\<lparr>request := f (request tab)\<rparr>)"

definition edit_method :: "string \<Rightarrow> store \<Rightarrow> store" where
  "edit_method v = edit_draft (\<lambda>d. d\<lparr>method := v\<rparr>)"

definition edit_url :: "string \<Rightarrow> store \<Rightarrow> store" where
  "edit_url v = edit_draft (\<lambda>d. d\<lparr>url := v\<rparr>)"

definition edit_body :: "string \<Rightarrow> store \<Rightarrow> store" where
  "edit_body v = edit_draft (\<lambda>d. d\<lparr>body := v\<rparr>)"

text \<open>\<open>addHeader\<close>; \<open>newHeader\<close> is the component's own state, passed in.\<close>

definition addHeader :: "KeyValue \<Rightarrow> store \<Rightarrow> store" where
  "addHeader newHeader s =
     (if kv_key newHeader \<noteq> '''' then edit_draft (\<lambda>d. d\<lparr>headers := headers d @ [newHeader]\<rparr>) s
      else s)"

definition removeHeader :: "int \<Rightarrow> store \<Rightarrow> store" where
  "removeHeader index = edit_draft (\<lambda>d. d\<lparr>headers := splice1 index (headers d)\<rparr>)"

subsection \<open>Code generation\<close>

definition quote :: char where
  "quote = CHR 0x27"

definition quoted :: "string \<Rightarrow> string" where
  "quoted t = quote # t @ [quote]"

text \<open>A template hole \<open>${x}\<close> prints \<open>undefined\<close> and \<open>null\<close> by their names.\<close>

definition hole :: "json_string \<Rightarrow> string" where
  "hole x = (case x of Undefined \<Rightarrow> ''undefined'' | Null \<Rightarrow> ''null'' | Str v \<Rightarrow> v)"

text \<open>An auth field is truthy when it is a non-empty string.\<close>

definition present :: "json_string \<Rightarrow> bool" where
  "present x = (case x of Str v \<Rightarrow> v \<noteq> '''' | _ \<Rightarrow> False)"

text \<open>\<open>String.prototype.toLowerCase\<close> on the ASCII letters. No character outside ASCII
  lower-cases to a letter of \<open>content-type\<close>, the only string the result is compared with.\<close>

definition lower_char :: "char \<Rightarrow> char" where
  "lower_char c = (let n = (of_char c :: nat) in if 65 \<le> n \<and> n \<le> 90 then char_of (n + 32) else c)"

definition toLowerCase :: "string \<Rightarrow> string" where
  "toLowerCase = map lower_char"

text \<open>\<open>body.replace(/'/g, "'\\''")\<close>\<close>

definition escape_quotes :: "string \<Rightarrow> string" where
  "escape_quotes t = concat (map (\<lambda>c. if c = quote then [quote, CHR 0x5C, quote, quote] else [c]) t)"

fun join :: "string \<Rightarrow> string list \<Rightarrow> string" where
  "join sep [] = []"
| "join sep [p] = p"
| "join sep (p # ps) = p @ sep @ join sep ps"

definition enabledHeaders :: "HttpRequest \<Rightarrow> KeyValue list" where
  "enabledHeaders d = filter (\<lambda>h. kv_enabled h \<and> kv_key h \<noteq> '''') (headers d)"

definition header_flag :: "string \<Rightarrow> string \<Rightarrow> string" where
  "header_flag k v = ''-H '' @ quoted (k @ '': '' @ v)"

definition hasContentType :: "HttpRequest \<Rightarrow> bool" where
  "hasContentType d = list_ex (\<lambda>h. toLowerCase (kv_key h) = ''content-type'') (enabledHeaders d)"

text \<open>The segments of the \<open>parts\<close> array: header flags, auth flag, body flags.\<close>

definition header_parts :: "HttpRequest \<Rightarrow> string list" where
  "header_parts d = map (\<lambda>h. header_flag (kv_key h) (kv_value h)) (enabledHeaders d)"

definition auth_parts :: "HttpRequest \<Rightarrow> string list" where
  "auth_parts d =
     (let ad = auth_data d
      in if auth_type d = ''basic'' \<and> present (username ad)
         then [''-u '' @ quoted (hole (username ad) @ '':''
                 @ (if present (password ad) then hole (password ad) else ''''))]
         else if auth_type d = ''bearer'' \<and> present (token ad)
         then [header_flag ''Authorization'' (''Bearer '' @ hole (token ad))]
         else if auth_type d = ''apikey'' \<and> present (auth_key ad)
         then [header_flag (hole (auth_key ad)) (hole (value_field ad))]
         else [])"

definition body_parts :: "HttpRequest \<Rightarrow> string list" where
  "body_parts d =
     (if body d \<noteq> '''' \<and> body_type d \<noteq> ''none''
      then [''-d '' @ quoted (escape_quotes (body d))]
           @ (if \<not> hasContentType d \<and> body_type d = ''json''
              then [header_flag ''Content-Type'' ''application/json'']
              else [])
      else [])"

text \<open>The \<open>parts\<close> array of \<open>generateCurl\<close> when it is joined.\<close>

definition generateCurl_parts :: "store \<Rightarrow> string list" where
  "generateCurl_parts s =
     (let d = currentRequest s
      in [''curl'']
         @ (if method d \<noteq> ''GET'' then [''-X '' @ method d] else [])
         @ header_parts d
         @ auth_parts d
         @ body_parts d
         @ [quoted (url d)])"

definition generateCurl :: "store \<Rightarrow> string" where
  "generateCurl s = join [CHR '' '', CHR 0x5C, CHR 0x0A, CHR '' '', CHR '' ''] (generateCurl_parts s)"

text \<open>The number of places at which \<open>pat\<close> occurs in a string.\<close>

fun occurrences :: "string \<Rightarrow> string \<Rightarrow> nat" where
  "occurrences pat [] = (if pat = [] then 1 else 0)"
| "occurrences pat (c # cs) =
     (if take (length pat) (c # cs) = pat then 1 else 0) + occurrences pat cs"

text \<open>
  The parts that \<open>generateCurl\<close> writes from the draft's own fields, in order: all of
  \<open>parts\<close> but the Content-Type flag it may inject after the body flag.
\<close>

definition own_parts :: "store \<Rightarrow> string list" where
  "own_parts s =
     (let d = currentRequest s
      in [''curl'']
         @ (if method d \<noteq> ''GET'' then [''-X '' @ method d] else [])
         @ header_parts d
         @ auth_parts d
         @ (if body d \<noteq> '''' \<and> body_type d \<noteq> ''none''
            then [''-d '' @ quoted (escape_quotes (body d))] else [])
         @ [quoted (url d)])"

subsection \<open>The collection tree\<close>

text \<open>\<open>c.parent_id === parentId || (!c.parent_id && !parentId)\<close>\<close>

definition at_level :: "Collection \<Rightarrow> string option \<Rightarrow> bool" where
  "at_level c parentId =
     (c_parent_id c = parentId \<or> (\<not> truthy (c_parent_id c) \<and> \<not> truthy parentId))"

text \<open>\<open>requests.value.get(id) || []\<close>\<close>

definition requests_of :: "(string \<times> Request list) list \<Rightarrow> string \<Rightarrow> Request list" where
  "requests_of rq ident = (case map_of rq ident of None \<Rightarrow> [] | Some rs \<Rightarrow> rs)"

definition request_node :: "Request \<Rightarrow> TreeNode" where
  "request_node req = TreeNode (r_id req) (r_name req) (RequestData req) (Some ''pi pi-file'')
     None ''request''"

definition folder_node :: "Collection \<Rightarrow> TreeNode list \<Rightarrow> TreeNode" where
  "folder_node folder children = TreeNode (c_id folder) (c_name folder) (CollectionData folder)
     (Some ''pi pi-folder'') (Some children) ''folder''"

text \<open>\<open>forEach((req) => target.push({...}))\<close>: the leaf nodes are pushed one by one.\<close>

definition push_requests :: "Request list \<Rightarrow> TreeNode list \<Rightarrow> TreeNode list" where
  "push_requests reqs target = fold (\<lambda>req acc. acc @ [request_node req]) reqs target"

text \<open>
  \<open>buildTree\<close> recurses on the id of every folder it meets and does not return when the
  parent links of the folders form a cycle that it reaches, so the model carries fuel:
  \<open>None\<close> is a recursion that does not come back within it.
  \<open>collectionTree\<close> is the call \<open>buildTree()\<close>, with \<open>parentId = null\<close>.
\<close>

primrec buildTree ::
  "nat \<Rightarrow> Collection list \<Rightarrow> (string \<times> Request list) list \<Rightarrow> string option
     \<Rightarrow> TreeNode list option" where
  "buildTree 0 cs rq parentId = None"
| "buildTree (Suc n) cs rq parentId =
     (let folders = filter (\<lambda>c. c_is_folder c \<and> at_level c parentId) cs;
          items1 = fold (\<lambda>folder acc.
                     case acc of
                       None \<Rightarrow> None
                     | Some items \<Rightarrow>
                         (case buildTree n cs rq (Some (c_id folder)) of
                            None \<Rightarrow> None
                          | Some children \<Rightarrow>
                              Some (items @ [folder_node folder
                                (push_requests (requests_of rq (c_id folder)) children)])))
                     folders (Some []);
          rootRequests = filter (\<lambda>c. \<not> c_is_folder c \<and> at_level c parentId) cs
      in case items1 of
           None \<Rightarrow> None
         | Some items \<Rightarrow>
             Some (fold (\<lambda>collection acc. push_requests (requests_of rq (c_id collection)) acc)
                     rootRequests items))"

definition collectionTree :: "nat \<Rightarrow> store \<Rightarrow> TreeNode list option" where
  "collectionTree fuel s = buildTree fuel (collections s) (requests s) None"

text \<open>The open tabs bound to a saved request id.\<close>

definition bound_to :: "string \<Rightarrow> store \<Rightarrow> RequestTab list" where
  "bound_to ident s = filter (\<lambda>tab. requestId tab = Some ident) (openTabs s)"

text \<open>A tree node and all the nodes below it.\<close>

primrec nodes :: "TreeNode \<Rightarrow> TreeNode list" where
  "nodes (TreeNode k l d i ch t) =
     TreeNode k l d i ch t
     # (case map_option (map nodes) ch of None \<Rightarrow> [] | Some subs \<Rightarrow> concat subs)"



subsection \<open>The write-then-reload protocol\<close>

text \<open>The in-memory mirrors of the persisted lists.\<close>

definition mirrors ::
  "store \<Rightarrow> Collection list \<times> (string \<times> Request list) list \<times> Environment list" where
  "mirrors s = (collections s, requests s, environments s)"

text \<open>
  The protocol in the specification's words, for an action that ended in \<open>out\<close> from the
  store \<open>s\<close>: the persistence command \<open>w\<close> is issued first; if it rejects, nothing else is
  issued and the store is as it was; if it is accepted, the commands of the reload follow
  and the mirrors are those the reload leaves.
\<close>

definition write_then_reload ::
  "call \<Rightarrow> error + unit \<Rightarrow> (store \<Rightarrow> call list \<times> store) \<Rightarrow> store \<Rightarrow> call list \<times> store \<Rightarrow> bool" where
  "write_then_reload w answer reload s out =
     (case answer of
        Inl e \<Rightarrow> out = ([w], s)
      | Inr u \<Rightarrow> fst out = w # fst (reload s) \<and> mirrors (snd out) = mirrors (snd (reload s)))"

section \<open>Example inputs\<close>

text \<open>The scenario of the specification: a saved GET request \<open>Login\<close> whose url names the
  variable \<open>host\<close>, an active environment that binds \<open>host\<close> to \<open>api.test\<close> and \<open>token\<close> to \<open>abc123\<close>, and a backend
  that resolves the tokens of the scenario, answers every request with status 200 and
  accepts every write.\<close>

definition ex_env :: Environment where
  "ex_env = \<lparr>e_id = ''env1'', e_name = ''Test'', e_variables = ''[host=api.test,token=abc123]'',
     e_is_active = True, e_created_at = ''2024-01-01''\<rparr>"

definition ex_draft :: HttpRequest where
  "ex_draft = \<lparr>method = ''GET'', url = ''https://{{host}}/login'',
     headers = [\<lparr>kv_key = ''Authorization'', kv_value = ''Bearer {{token}}'', kv_enabled = True\<rparr>,
       \<lparr>kv_key = ''X-Debug'', kv_value = ''{{host}}'', kv_enabled = False\<rparr>],
     body = ''{{host}}'', body_type = ''none'', auth_type = ''none'', auth_data = empty_auth,
     form_data = Some []\<rparr>"

definition ex_response :: HttpResponse where
  "ex_response = \<lparr>status = 200, status_text = ''OK'', response_headers = [],
     response_body = ''ok'', response_time = 12, response_size = 2, cookies = []\<rparr>"

definition ex_tab :: RequestTab where
  "ex_tab = \<lparr>tab_id = ''t1'', tab_name = ''Login'', request = ex_draft,
     response = Some ex_response, requestId = Some ''r1'', isLoading = False, isDirty = True\<rparr>"

definition ex_session :: store where
  "ex_session = \<lparr>collections = [], requests = [], environments = [ex_env],
     activeEnvironment = Some ex_env, history = [], openTabs = [ex_tab], activeTabIndex = 0\<rparr>"

definition ex_interpolate :: "string \<Rightarrow> error + string" where
  "ex_interpolate t =
     (if t = ''https://{{host}}/login'' then Inr ''https://api.test/login''
      else if t = ''{{host}}'' then Inr ''api.test''
      else if t = ''Bearer {{token}}'' then Inr ''Bearer abc123''
      else Inr t)"

definition ex_saved :: Request where
  "ex_saved = \<lparr>r_id = ''r1'', r_collection_id = ''f1'', r_name = ''Login'', r_method = ''GET'',
     r_url = ''https://{{host}}/login'', r_headers = '''', r_body = '''', r_body_type = ''none'',
     r_auth_type = ''none'', r_auth_data = '''', r_created_at = ''2024-01-01'',
     r_updated_at = ''2024-01-01''\<rparr>"

definition ex_folder :: Collection where
  "ex_folder = \<lparr>c_id = ''f1'', c_name = ''Auth'', c_parent_id = None, c_is_folder = True,
     c_created_at = ''2024-01-01''\<rparr>"

definition ex_entry :: History where
  "ex_entry = \<lparr>h_id = ''h1'', h_method = ''GET'', h_url = ''https://{{host}}/login'',
     h_status = 200, h_response_time = 12, h_created_at = ''2024-01-02''\<rparr>"

definition ex_backend :: backend where
  "ex_backend = \<lparr>get_all_collections = Inr [ex_folder],
     create_collection = (\<lambda>c. Inr ()),
     delete_collection = (\<lambda>i. Inr ()),
     get_requests_by_collection = (\<lambda>i. if i = ''f1'' then Inr [ex_saved] else Inr []),
     save_request = (\<lambda>r. Inr ()),
     get_request = (\<lambda>i. if i = ''r1'' then Inr (Some ex_saved) else Inr None),
     delete_request = (\<lambda>i. Inr ()),
     interpolate_variables = ex_interpolate,
     send_http_request = (\<lambda>r. Inr ex_response),
     get_all_environments = Inr [ex_env],
     save_environment = (\<lambda>e. Inr ()),
     delete_environment = (\<lambda>i. Inr ()),
     add_history = (\<lambda>h. Inr ()),
     get_history = (\<lambda>n. Inr [ex_entry]),
     clear_history = Inr ()\<rparr>"

text \<open>A backend that is down: every command rejects.\<close>

definition down :: error where
  "down = BackendError ''connection refused''"

definition ex_backend_down :: backend where
  "ex_backend_down = \<lparr>get_all_collections = Inl down,
     create_collection = (\<lambda>c. Inl down),
     delete_collection = (\<lambda>i. Inl down),
     get_requests_by_collection = (\<lambda>i. Inl down),
     save_request = (\<lambda>r. Inl down),
     get_request = (\<lambda>i. Inl down),
     delete_request = (\<lambda>i. Inl down),
     interpolate_variables = (\<lambda>t. Inl down),
     send_http_request = (\<lambda>r. Inl down),
     get_all_environments = Inl down,
     save_environment = (\<lambda>e. Inl down),
     delete_environment = (\<lambda>i. Inl down),
     add_history = (\<lambda>h. Inl down),
     get_history = (\<lambda>n. Inl down),
     clear_history = Inl down\<rparr>"

text \<open>A backend that resolves variables but whose HTTP call rejects.\<close>

definition ex_backend_refusing :: backend where
  "ex_backend_refusing = ex_backend\<lparr>send_http_request := (\<lambda>r. Inl down)\<rparr>"

text \<open>A POST draft of body type json whose body is still empty, and the same draft with a
  body.\<close>

definition ex_post :: store where
  "ex_post = edit_draft (\<lambda>d. d\<lparr>method := ''POST'', url := ''https://api.test/items'',
     body_type := ''json''\<rparr>) (initial_store ''t1'')"

definition ex_post_body :: store where
  "ex_post_body = edit_body ''{}'' ex_post"

definition ex_post_manual :: store where
  "ex_post_manual = addHeader \<lparr>kv_key = ''Content-Type'', kv_value = ''text/plain'',
     kv_enabled = True\<rparr> ex_post_body"









text \<open>The draft with a body, once with a url whose query spells the Content-Type flag and
  once with an API-key auth whose key and value are that header.\<close>

definition ex_post_url :: store where
  "ex_post_url = edit_url (''https://api.test/items?hint=''
     @ header_flag ''Content-Type'' ''application/json'') ex_post_body"

definition ex_post_apikey :: store where
  "ex_post_apikey = edit_draft (\<lambda>d. d\<lparr>auth_type := ''apikey'',
     auth_data := empty_auth\<lparr>auth_key := Str ''Content-Type'',
       value_field := Str ''application/json''\<rparr>\<rparr>) ex_post_body"

text \<open>A JSON codec that is defined on the empty documents.\<close>

definition ex_json :: json where
  "ex_json = \<lparr>stringify_headers = (\<lambda>hs. ''[]''),
     parse_headers = (\<lambda>t. if t = ''[]'' then Some [] else None),
     stringify_auth = (\<lambda>a. ''{}''),
     parse_auth = (\<lambda>t. if t = ''{}'' then Some empty_auth else None),
     stringify_variables = (\<lambda>vs. ''[]'')\<rparr>"

section \<open>Tab lifecycle\<close>

lemma length_splice1:
  "length (splice1 i xs) = (if i < int (length xs) \<and> xs \<noteq> []
     then length xs - 1 else length xs)"
  by (cases xs) (auto simp: splice1_def Let_def min_def max_def)

lemma length_update_active [simp]: "length (openTabs (update_active f s)) = length (openTabs s)"
  by (simp add: update_active_def split: option.splits)

lemma activeTabIndex_update_active [simp]:
  "activeTabIndex (update_active f s) = activeTabIndex s"
  by (simp add: update_active_def split: option.splits)

lemma length_resetCurrentRequest [simp]:
  "length (openTabs (resetCurrentRequest s)) = length (openTabs s)"
  by (simp add: resetCurrentRequest_def set_selectedRequestId_def set_currentResponse_def
      set_currentRequest_def)

lemma activeTabIndex_resetCurrentRequest [simp]:
  "activeTabIndex (resetCurrentRequest s) = activeTabIndex s"
  by (simp add: resetCurrentRequest_def set_selectedRequestId_def set_currentResponse_def
      set_currentRequest_def)

lemma tabs_ok_initial: "tabs_ok (initial_store uuid)"
  by (simp add: tabs_ok_def initial_store_def)

lemma tabs_ok_switchTab: "tabs_ok s \<Longrightarrow> tabs_ok (switchTab i s)"
  by (simp add: tabs_ok_def switchTab_def)

lemma tabs_ok_closeTab:
  assumes "tabs_ok s" and "0 \<le> i" and "i < int (length (openTabs s))"
  shows "tabs_ok (closeTab i s)"
proof (cases "length (openTabs s) = 1")
  case True
  then have "openTabs (resetCurrentRequest s) \<noteq> []"
    by (metis length_resetCurrentRequest list.size(3) zero_neq_one)
  then show ?thesis
    using True assms by (auto simp: closeTab_def tabs_ok_def Let_def)
next
  case False
  with assms have len: "length (splice1 i (openTabs s)) = length (openTabs s) - 1"
    and big: "2 \<le> length (openTabs s)"
    by (auto simp: length_splice1 tabs_ok_def Suc_le_eq)
  from big len have ne: "splice1 i (openTabs s) \<noteq> []"
    by auto
  show ?thesis
    using False assms len big ne by (auto simp: closeTab_def tabs_ok_def Let_def)
qed

text \<open>
  C1. \<open>closeTab(index)\<close>, for any integer index, never leaves a non-empty tab list with
  fewer than one tab. When exactly one tab is open (it is then the active tab, index 0),
  the tab is kept: its draft is reset to the default draft (GET, empty url, headers and
  body, body type and auth type none), its response and bound request id are cleared, its
  name is the default name and its dirty flag is false; its id and loading flag are as
  they were.
\<close>

theorem closeTab_keeps_one_tab:
  assumes "openTabs s \<noteq> []"
  shows "1 \<le> length (openTabs (closeTab index s))
    \<and> (\<forall>t. openTabs s = [t] \<and> activeTabIndex s = 0 \<longrightarrow>
          openTabs (closeTab index s) =
            [\<lparr>tab_id = tab_id t, tab_name = ''New Request'', request = default_request,
              response = None, requestId = None, isLoading = isLoading t, isDirty = False\<rparr>]
          \<and> activeTabIndex (closeTab index s) = 0)"
proof (intro conjI allI impI)
  show "1 \<le> length (openTabs (closeTab index s))"
  proof (cases "length (openTabs s) = 1")
    case True
    then show ?thesis by (simp add: closeTab_def Let_def)
  next
    case False
    with assms have "2 \<le> length (openTabs s)"
      by (cases "openTabs s") (auto simp: Suc_le_eq)
    then show ?thesis
      using False by (auto simp: closeTab_def Let_def length_splice1)
  qed
next
  fix t
  assume h: "openTabs s = [t] \<and> activeTabIndex s = 0"
  then show "openTabs (closeTab index s) =
            [\<lparr>tab_id = tab_id t, tab_name = ''New Request'', request = default_request,
              response = None, requestId = None, isLoading = isLoading t, isDirty = False\<rparr>]"
    by (simp add: closeTab_def Let_def resetCurrentRequest_def set_selectedRequestId_def
        set_currentResponse_def set_currentRequest_def update_active_def tab_at_def)
next
  fix t
  assume h: "openTabs s = [t] \<and> activeTabIndex s = 0"
  then show "activeTabIndex (closeTab index s) = 0"
    by (simp add: closeTab_def Let_def resetCurrentRequest_def set_selectedRequestId_def
        set_currentResponse_def set_currentRequest_def)
qed

theorem closeTab_keeps_one_tab_witness:
  "openTabs ex_session \<noteq> []
   \<and> openTabs (closeTab 0 ex_session) =
       [\<lparr>tab_id = ''t1'', tab_name = ''New Request'', request = default_request,
         response = None, requestId = None, isLoading = False, isDirty = False\<rparr>]
   \<and> activeTabIndex (closeTab 0 ex_session) = 0"
proof -
  have ne: "openTabs ex_session \<noteq> []"
    by (simp add: ex_session_def)
  have sole: "openTabs ex_session = [ex_tab] \<and> activeTabIndex ex_session = 0"
    by (simp add: ex_session_def)
  show ?thesis
    using closeTab_keeps_one_tab [OF ne, of 0] sole ne by (simp add: ex_tab_def)
qed

section \<open>Opening a saved request\<close>

lemma findIndex_ge: "- 1 \<le> findIndex P xs"
  by (induction xs) (auto simp: Let_def)

lemma findIndex_none: "findIndex P xs = - 1 \<longleftrightarrow> (\<forall>x\<in>set xs. \<not> P x)"
proof (induction xs)
  case Nil
  then show ?case by simp
next
  case (Cons x xs)
  have "- 1 \<le> findIndex P xs" by (rule findIndex_ge)
  then have "findIndex P xs + 1 \<noteq> - 1" by arith
  with Cons show ?case by (auto simp: Let_def)
qed

lemma findIndex_found:
  "findIndex P xs \<noteq> - 1 \<Longrightarrow>
     0 \<le> findIndex P xs \<and> findIndex P xs < int (length xs) \<and> P (xs ! nat (findIndex P xs))"
proof (induction xs)
  case Nil
  then show ?case by simp
next
  case (Cons x xs)
  show ?case
  proof (cases "P x")
    case True
    then show ?thesis by simp
  next
    case False
    with Cons.prems have ne: "findIndex P xs \<noteq> - 1"
      by (auto simp: Let_def)
    from Cons.IH [OF ne] False ne show ?thesis
      by (auto simp: Let_def nat_add_distrib)
  qed
qed

lemma filter_update_fresh:
  assumes "\<forall>x\<in>set xs. \<not> P x" and "a < length xs" and "P y"
  shows "length (filter P (xs[a := y])) = 1"
proof -
  have "filter P (take a xs) = []" "filter P (drop (Suc a) xs) = []"
    using assms(1) by (auto simp: filter_empty_conv dest: in_set_takeD in_set_dropD)
  then show ?thesis
    using assms(2,3) by (simp add: upd_conv_take_nth_drop)
qed

lemma filter_update_le:
  "\<not> P y \<Longrightarrow> length (filter P (xs[a := y])) \<le> length (filter P xs)"
proof (induction xs arbitrary: a)
  case Nil
  then show ?case by simp
next
  case (Cons x xs)
  then show ?case by (cases a) (auto simp: le_SucI)
qed

lemma tab_at_eq:
  "tab_at xs i = (if 0 \<le> i \<and> nat i < length xs then Some (xs ! nat i) else None)"
  by (auto simp: tab_at_def)

lemma update_active_twice:
  "update_active f (update_active g s) = update_active (f \<circ> g) s"
  by (simp add: update_active_def tab_at_eq split: option.splits)

lemma openTabs_update_active:
  "openTabs (update_active f s) =
     (if 0 \<le> activeTabIndex s \<and> nat (activeTabIndex s) < length (openTabs s)
      then (openTabs s)[nat (activeTabIndex s) := f (openTabs s ! nat (activeTabIndex s))]
      else openTabs s)"
  by (simp add: update_active_def tab_at_eq)

lemma bound_some: "(\<exists>tab\<in>set (openTabs s). requestId tab = Some ident) \<longleftrightarrow> bound_to ident s \<noteq> []"
  by (auto simp: bound_to_def filter_empty_conv)

lemma loadRequest_existing:
  assumes "get_request be ident = Inr (Some req)"
    and "\<exists>tab\<in>set (openTabs s). requestId tab = Some ident"
  shows "snd (loadRequest be js uuid ident new s) =
    s\<lparr>activeTabIndex := findIndex (\<lambda>tab. requestId tab = Some ident) (openTabs s)\<rparr>"
proof -
  from assms(2) have "findIndex (\<lambda>tab. requestId tab = Some ident) (openTabs s) \<noteq> - 1"
    by (simp add: findIndex_none)
  with assms(1) show ?thesis
    by (simp add: loadRequest_def Let_def)
qed

lemma loadRequest_keeps_bound:
  assumes "length (bound_to ident s) = 1"
  shows "bound_to ident (snd (loadRequest be js uuid ident new s)) = bound_to ident s"
proof -
  from assms have ex: "\<exists>tab\<in>set (openTabs s). requestId tab = Some ident"
    by (auto simp: bound_some)
  show ?thesis
  proof (cases "get_request be ident")
    case (Inl e)
    then show ?thesis by (simp add: loadRequest_def)
  next
    case (Inr r)
    show ?thesis
    proof (cases r)
      case None
      with Inr show ?thesis by (simp add: loadRequest_def)
    next
      case (Some req)
      with Inr loadRequest_existing [OF _ ex, of be req js uuid new] show ?thesis
        by (simp add: bound_to_def)
    qed
  qed
qed

lemma loadRequest_binds:
  assumes got: "get_request be ident = Inr (Some req)"
    and ok: "tabs_ok s" and ne: "ident \<noteq> []" and rid: "r_id req = ident"
    and hy: "hydrate js req = Inr d"
    and le: "length (bound_to ident s) \<le> 1"
  shows "length (bound_to ident (snd (loadRequest be js uuid ident new s))) = 1"
proof (cases "\<exists>tab\<in>set (openTabs s). requestId tab = Some ident")
  case True
  then have "bound_to ident s \<noteq> []" by (simp add: bound_some)
  with le have "length (bound_to ident s) = 1"
    by (cases "bound_to ident s") auto
  then show ?thesis
    using loadRequest_existing [OF got True, of js uuid new] by (simp add: bound_to_def)
next
  case False
  then have none: "\<forall>x\<in>set (openTabs s). \<not> requestId x = Some ident"
    by simp
  then have fi: "findIndex (\<lambda>tab. requestId tab = Some ident) (openTabs s) = - 1"
    by (simp add: findIndex_none)
  from ok have act: "0 \<le> activeTabIndex s" "nat (activeTabIndex s) < length (openTabs s)"
    by (auto simp: tabs_ok_def)
  then have ta: "tab_at (openTabs s) (activeTabIndex s) = Some (openTabs s ! nat (activeTabIndex s))"
    by (simp add: tab_at_eq)
  let ?t = "openTabs s ! nat (activeTabIndex s)"
  show ?thesis
  proof (cases "new \<or> truthy (requestId ?t) \<or> isDirty ?t")
    case True
    with got fi ta hy rid ne none show ?thesis
      by (auto simp: loadRequest_def Let_def createNewTab_def bound_to_def filter_empty_conv)
  next
    case False
    with got fi ta hy have
      "openTabs (snd (loadRequest be js uuid ident new s)) =
        (openTabs s)[nat (activeTabIndex s) :=
           ?t\<lparr>requestId := Some ident, request := d, tab_name := r_name req, isDirty := False\<rparr>]"
      using act
      by (simp add: loadRequest_def Let_def set_selectedRequestId_def set_currentRequest_def
          update_active_twice openTabs_update_active)
    then show ?thesis
      using filter_update_fresh [OF none act(2)] by (simp add: bound_to_def)
  qed
qed

lemma filter_update_one:
  assumes "\<forall>x\<in>set xs. \<not> P x"
  shows "length (filter P (xs[a := y])) \<le> 1"
proof -
  have "filter P (take a xs) = []" "filter P (drop (Suc a) xs) = []"
    using assms by (auto simp: filter_empty_conv dest: in_set_takeD in_set_dropD)
  moreover have "filter P xs = []"
    using assms by (simp add: filter_empty_conv)
  ultimately show ?thesis
    by (cases "a < length xs") (simp_all add: upd_conv_take_nth_drop list_update_beyond)
qed

lemma loadRequest_at_most_one:
  assumes got: "get_request be ident = Inr (Some req)"
    and rid: "r_id req = ident"
    and inv: "\<forall>j. length (bound_to j s) \<le> 1"
  shows "length (bound_to j (snd (loadRequest be js uuid ident new s))) \<le> 1"
proof (cases "\<exists>tab\<in>set (openTabs s). requestId tab = Some ident")
  case True
  then show ?thesis
    using loadRequest_existing [OF got True, of js uuid new] inv by (simp add: bound_to_def)
next
  case False
  then have none: "\<forall>x\<in>set (openTabs s). \<not> requestId x = Some ident"
    by simp
  then have fi: "findIndex (\<lambda>tab. requestId tab = Some ident) (openTabs s) = - 1"
    by (simp add: findIndex_none)
  from none have zero: "filter (\<lambda>tab. requestId tab = Some ident) (openTabs s) = []"
    by (simp add: filter_empty_conv)
  from inv have invj: "length (filter (\<lambda>tab. requestId tab = Some j) (openTabs s)) \<le> 1"
    by (simp add: bound_to_def)
  let ?a = "tab_at (openTabs s) (activeTabIndex s)"
  show ?thesis
  proof (cases "new \<or> (case ?a of None \<Rightarrow> False | Some t \<Rightarrow> truthy (requestId t))
      \<or> (case ?a of None \<Rightarrow> False | Some t \<Rightarrow> isDirty t)")
    case True
    show ?thesis
    proof (cases "createNewTab js uuid (r_name req) (Some req) s")
      case (Inl e)
      with True got fi invj show ?thesis
        by (simp add: loadRequest_def Let_def bound_to_def)
    next
      case (Inr s1)
      then obtain nt where s1: "openTabs s1 = openTabs s @ [nt]"
        and nt: "requestId nt = (if ident \<noteq> [] then Some ident else None)"
        using rid by (auto simp: createNewTab_def Let_def split: sum.splits)
      have "length (filter (\<lambda>tab. requestId tab = Some j) (openTabs s @ [nt])) \<le> 1"
        using invj zero nt by (cases "j = ident") auto
      with True got fi Inr s1 show ?thesis
        by (simp add: loadRequest_def Let_def bound_to_def)
    qed
  next
    case False
    define F where "F = (\<lambda>tab::RequestTab. tab\<lparr>requestId := Some ident\<rparr>)"
    define G where "G = (\<lambda>tab::RequestTab. tab\<lparr>tab_name := r_name req, isDirty := False\<rparr>)"
    have upd: "length (filter (\<lambda>tab. requestId tab = Some j) (openTabs (update_active H s))) \<le> 1"
      if "\<And>t. requestId (H t) = Some ident" for H
    proof (cases "j = ident")
      case True
      with filter_update_one [OF none] invj show ?thesis
        by (auto simp: openTabs_update_active)
    next
      case False
      with that have "\<not> requestId (H t) = Some j" for t
        by simp
      then show ?thesis
        using filter_update_le [of "\<lambda>tab. requestId tab = Some j", THEN le_trans, OF _ invj] invj
        by (auto simp: openTabs_update_active)
    qed
    show ?thesis
    proof (cases "hydrate js req")
      case (Inl e)
      with False got fi upd [of F] show ?thesis
        by (simp add: loadRequest_def Let_def bound_to_def set_selectedRequestId_def F_def)
    next
      case (Inr d)
      with False got fi
        upd [of "G \<circ> (\<lambda>t. t\<lparr>request := d, isDirty := True\<rparr>) \<circ> F"]
      show ?thesis
        by (simp add: loadRequest_def Let_def bound_to_def set_selectedRequestId_def
            set_currentRequest_def update_active_twice F_def G_def)
    qed
  qed
qed

text \<open>
  C2. When the backend returns the request and some open tab is already bound to the id,
  \<open>loadRequest(id)\<close> only activates the first tab bound to it: no tab is created and
  nothing else in the store changes. Consequently, in a session with an active tab where at
  most one tab is bound to the id, after a \<open>loadRequest(id)\<close> that fetches the saved
  request (whose id is the non-empty id asked for and whose stored JSON parses) and a
  second \<open>loadRequest(id)\<close>, whatever the backend answers the second time, exactly one open
  tab is bound to the id. A load also keeps the invariant that no saved request id is bound
  to more than one tab.
\<close>

theorem loadRequest_no_duplicate:
  assumes "get_request be ident = Inr (Some req)"
  shows "((\<exists>tab\<in>set (openTabs s). requestId tab = Some ident) \<longrightarrow>
            snd (loadRequest be js uuid ident new s) =
              s\<lparr>activeTabIndex := findIndex (\<lambda>tab. requestId tab = Some ident) (openTabs s)\<rparr>
            \<and> (\<exists>t. tab_at (openTabs s)
                     (findIndex (\<lambda>tab. requestId tab = Some ident) (openTabs s)) = Some t
                   \<and> requestId t = Some ident))
       \<and> (tabs_ok s \<and> ident \<noteq> [] \<and> r_id req = ident \<and> (\<exists>d. hydrate js req = Inr d)
            \<and> length (bound_to ident s) \<le> 1 \<longrightarrow>
            length (bound_to ident (snd (loadRequest be_b js uuid_b ident new_b
              (snd (loadRequest be js uuid ident new s))))) = 1)
       \<and> (r_id req = ident \<and> (\<forall>j. length (bound_to j s) \<le> 1) \<longrightarrow>
            (\<forall>j. length (bound_to j (snd (loadRequest be js uuid ident new s))) \<le> 1))"
proof (intro conjI impI)
  assume ex: "\<exists>tab\<in>set (openTabs s). requestId tab = Some ident"
  show "snd (loadRequest be js uuid ident new s) =
      s\<lparr>activeTabIndex := findIndex (\<lambda>tab. requestId tab = Some ident) (openTabs s)\<rparr>"
    using assms ex by (rule loadRequest_existing)
  from ex have "findIndex (\<lambda>tab. requestId tab = Some ident) (openTabs s) \<noteq> - 1"
    by (simp add: findIndex_none)
  from findIndex_found [OF this]
  show "\<exists>t. tab_at (openTabs s)
           (findIndex (\<lambda>tab. requestId tab = Some ident) (openTabs s)) = Some t
         \<and> requestId t = Some ident"
    by (simp add: tab_at_def)
next
  assume h: "tabs_ok s \<and> ident \<noteq> [] \<and> r_id req = ident \<and> (\<exists>d. hydrate js req = Inr d)
    \<and> length (bound_to ident s) \<le> 1"
  then obtain d where d: "hydrate js req = Inr d"
    by blast
  from h have "length (bound_to ident (snd (loadRequest be js uuid ident new s))) = 1"
    using loadRequest_binds [OF assms _ _ _ d, of s uuid new] by blast
  then show "length (bound_to ident (snd (loadRequest be_b js uuid_b ident new_b
      (snd (loadRequest be js uuid ident new s))))) = 1"
    by (simp add: loadRequest_keeps_bound)
next
  assume "r_id req = ident \<and> (\<forall>j. length (bound_to j s) \<le> 1)"
  then show "\<forall>j. length (bound_to j (snd (loadRequest be js uuid ident new s))) \<le> 1"
    using loadRequest_at_most_one [OF assms] by blast
qed

theorem loadRequest_no_duplicate_witness:
  "get_request ex_backend ''r1'' = Inr (Some ex_saved)
   \<and> snd (loadRequest ex_backend ex_json ''t2'' ''r1'' False ex_session) = ex_session
   \<and> length (bound_to ''r1'' (snd (loadRequest ex_backend_down ex_json ''t3'' ''r1'' False
        (snd (loadRequest ex_backend ex_json ''t2'' ''r1'' False (initial_store ''t1''))))))
      = 1"
proof -
  have got: "get_request ex_backend ''r1'' = Inr (Some ex_saved)"
    by (simp add: ex_backend_def)
  have hy: "hydrate ex_json ex_saved = Inr (default_request\<lparr>url := ''https://{{host}}/login''\<rparr>)"
    by (simp add: hydrate_def ex_json_def ex_saved_def default_request_def)
  have pre1: "\<exists>tab\<in>set (openTabs ex_session). requestId tab = Some ''r1''"
    by (simp add: ex_session_def ex_tab_def)
  have fi: "findIndex (\<lambda>tab. requestId tab = Some ''r1'') (openTabs ex_session) = 0"
    by (simp add: ex_session_def ex_tab_def)
  have pre2: "tabs_ok (initial_store ''t1'') \<and> ''r1'' \<noteq> [] \<and> r_id ex_saved = ''r1''
    \<and> (\<exists>d. hydrate ex_json ex_saved = Inr d) \<and> length (bound_to ''r1'' (initial_store ''t1'')) \<le> 1"
    using hy by (simp add: tabs_ok_def initial_store_def ex_saved_def bound_to_def)
  have same: "ex_session\<lparr>activeTabIndex := 0\<rparr> = ex_session"
    by (simp add: ex_session_def)
  from loadRequest_no_duplicate [OF got, where s = ex_session and js = ex_json
      and uuid = "''t2''" and new = False] pre1 fi same
  have a: "snd (loadRequest ex_backend ex_json ''t2'' ''r1'' False ex_session) = ex_session"
    by simp
  from loadRequest_no_duplicate [OF got, where s = "initial_store ''t1''" and js = ex_json
      and be_b = ex_backend_down and uuid_b = "''t3''" and new_b = False and uuid = "''t2''"
      and new = False] pre2
  have b: "length (bound_to ''r1'' (snd (loadRequest ex_backend_down ex_json ''t3'' ''r1'' False
        (snd (loadRequest ex_backend ex_json ''t2'' ''r1'' False (initial_store ''t1''))))))
      = 1"
    by blast
  from got a b show ?thesis
    by blast
qed

section \<open>Sending a request\<close>

lemma tab_at_update_active:
  "tab_at (openTabs (update_active f s)) (activeTabIndex s) =
     map_option f (tab_at (openTabs s) (activeTabIndex s))"
  by (simp add: update_active_def tab_at_eq split: option.splits)

lemma frame_update_active [simp]:
  "activeEnvironment (update_active f s) = activeEnvironment s"
  "history (update_active f s) = history s"
  "collections (update_active f s) = collections s"
  "requests (update_active f s) = requests s"
  "environments (update_active f s) = environments s"
  by (simp_all add: update_active_def split: option.splits)

lemma active_cases:
  obtains (no_tab) "currentRequest s = default_request" "\<And>f. update_active f s = s"
  | (tab) t where "currentRequest s = request t"
      "\<And>f. currentRequest (update_active f s) = request (f t)"
proof (cases "tab_at (openTabs s) (activeTabIndex s)")
  case None
  then have "currentRequest s = default_request" "\<And>f. update_active f s = s"
    by (simp_all add: currentRequest_def update_active_def)
  then show ?thesis by (rule no_tab)
next
  case (Some t)
  have "currentRequest (update_active f s) = request (f t)" for f
    unfolding currentRequest_def activeTabIndex_update_active tab_at_update_active
    by (simp add: Some)
  moreover have "currentRequest s = request t"
    by (simp add: currentRequest_def Some)
  ultimately show ?thesis by (rule tab [rotated])
qed

lemma currentRequest_set_currentResponse [simp]:
  "currentRequest (set_currentResponse r s) = currentRequest s"
  by (cases s rule: active_cases) (simp_all add: set_currentResponse_def)

lemma currentRequest_set_isLoading [simp]:
  "currentRequest (set_isLoading b s) = currentRequest s"
  by (cases s rule: active_cases) (simp_all add: set_isLoading_def)

lemma frame_setters [simp]:
  "activeEnvironment (set_currentResponse r s) = activeEnvironment s"
  "activeEnvironment (set_isLoading b s) = activeEnvironment s"
  by (simp_all add: set_currentResponse_def set_isLoading_def)

lemma currentRequest_write_headers:
  "currentRequest (update_active
      (\<lambda>tab. tab\<lparr>request := (request tab)\<lparr>headers := map f (headers (currentRequest s))\<rparr>\<rparr>) s) =
   (currentRequest s)\<lparr>headers := map f (headers (currentRequest s))\<rparr>"
  by (cases s rule: active_cases) (simp_all add: default_request_def)

lemma currentRequest_write_same:
  "currentRequest (update_active
      (\<lambda>tab. tab\<lparr>request := (request tab)\<lparr>headers := headers (currentRequest s)\<rparr>\<rparr>) s) =
   currentRequest s"
  by (cases s rule: active_cases) simp_all

lemma interpolate_headers_calls:
  "list_all is_interpolate (fst (interpolate_headers be as objs))"
  by (induction as arbitrary: objs) (simp_all add: Let_def case_prod_beta split: sum.splits)

lemma resolved_eq:
  assumes "\<forall>t. \<exists>v. interpolate_variables be t = Inr v"
  shows "interpolate_variables be t = Inr (resolved be t)"
proof -
  from assms obtain v where "interpolate_variables be t = Inr v" by blast
  then show ?thesis by (simp add: resolved_def)
qed

lemma interpolate_headers_from:
  assumes "\<forall>t. \<exists>v. interpolate_variables be t = Inr v"
    and "k \<le> length objs"
  shows "interpolate_headers be [k..<length objs] objs =
     (map (\<lambda>h. InterpolateVariables (kv_value h)) (drop k objs), None,
      take k objs @ map (\<lambda>h. h\<lparr>kv_value := resolved be (kv_value h)\<rparr>) (drop k objs))"
  using assms(2)
proof (induction "length objs - k" arbitrary: k objs)
  case 0
  then show ?case by simp
next
  case (Suc n)
  then have lt: "k < length objs" by arith
  define v where "v = resolved be (kv_value (objs ! k))"
  have v: "interpolate_variables be (kv_value (objs ! k)) = Inr v"
    unfolding v_def using assms(1) by (rule resolved_eq)
  let ?objs = "objs[k := (objs ! k)\<lparr>kv_value := v\<rparr>]"
  have "n = length ?objs - Suc k" "Suc k \<le> length ?objs"
    using Suc.hyps(2) lt by simp_all
  from Suc.hyps(1) [OF this]
  have IH: "interpolate_headers be [Suc k..<length objs] ?objs =
     (map (\<lambda>h. InterpolateVariables (kv_value h)) (drop (Suc k) objs), None,
      take k objs @ [(objs ! k)\<lparr>kv_value := v\<rparr>]
        @ map (\<lambda>h. h\<lparr>kv_value := resolved be (kv_value h)\<rparr>) (drop (Suc k) objs))"
    using lt by (simp add: take_Suc_conv_app_nth)
  have dr: "drop k objs = objs ! k # drop (Suc k) objs"
    using lt by (simp add: Cons_nth_drop_Suc)
  show ?case
    using lt v IH by (simp add: upt_conv_Cons dr Let_def v_def)
qed

lemma dispatched_append [simp]: "dispatched (xs @ ys) = dispatched xs @ dispatched ys"
  by (induction xs rule: dispatched.induct) simp_all

lemma appended_append [simp]: "appended (xs @ ys) = appended xs @ appended ys"
  by (induction xs rule: appended.induct) simp_all

lemma dispatched_interpolate: "list_all is_interpolate xs \<Longrightarrow> dispatched xs = []"
  by (induction xs rule: dispatched.induct) simp_all

lemma appended_interpolate: "list_all is_interpolate xs \<Longrightarrow> appended xs = []"
  by (induction xs rule: appended.induct) simp_all

lemma addHistory_calls:
  "fst (addHistory be h s) = AddHistory h # reload_after be h"
  by (simp add: addHistory_def loadHistory_def reload_after_def split: sum.splits)

lemma reload_after_quiet [simp]:
  "appended (reload_after be h) = []" "dispatched (reload_after be h) = []"
  by (simp_all add: reload_after_def split: sum.splits)

lemma map_nth_map: "map ((!) (map f xs)) [0..<length xs] = map f xs"
  by (metis length_map map_nth)

lemma send_try_dispatched:
  assumes all: "\<forall>t. \<exists>v. interpolate_variables be t = Inr v"
  shows "dispatched (fst (send_try be uuid now s)) =
     [if activeEnvironment s \<noteq> None
      then (currentRequest s)\<lparr>url := resolved be (url (currentRequest s)),
             headers := map (\<lambda>h. h\<lparr>kv_value := resolved be (kv_value h)\<rparr>) (headers (currentRequest s)),
             body := (if body (currentRequest s) \<noteq> [] then resolved be (body (currentRequest s))
                      else [])\<rparr>
      else currentRequest s]"
proof -
  note ih = interpolate_headers_from [OF all, of 0, simplified]
  note [simp] = resolved_eq [OF all]
  show ?thesis
    by (simp add: send_try_def Let_def ih addHistory_calls case_prod_beta
        map_nth map_nth_map currentRequest_write_headers currentRequest_write_same
        dispatched_interpolate list_all_iff
        split: sum.splits)
qed

lemma draft_fields_write_headers [simp]:
  "method (currentRequest (update_active (\<lambda>tab. tab\<lparr>request := (request tab)\<lparr>headers := hs\<rparr>\<rparr>) s))
     = method (currentRequest s)"
  "url (currentRequest (update_active (\<lambda>tab. tab\<lparr>request := (request tab)\<lparr>headers := hs\<rparr>\<rparr>) s))
     = url (currentRequest s)"
  "body (currentRequest (update_active (\<lambda>tab. tab\<lparr>request := (request tab)\<lparr>headers := hs\<rparr>\<rparr>) s))
     = body (currentRequest s)"
  by (cases s rule: active_cases; simp)+

lemma interpolate_headers_calls_set:
  "\<forall>c\<in>set (fst (interpolate_headers be as objs)). is_interpolate c"
  using interpolate_headers_calls [of be as objs] by (simp add: list_all_iff)

lemma send_try_resolved:
  assumes "fst (snd (send_try be uuid now s)) = None"
  shows "\<exists>rq resp. send_http_request be rq = Inr resp
    \<and> dropWhile is_interpolate (fst (send_try be uuid now s)) =
        SendHttpRequest rq
        # AddHistory \<lparr>h_id = uuid, h_method = method (currentRequest s),
            h_url = url (currentRequest s), h_status = status resp,
            h_response_time = response_time resp, h_created_at = now\<rparr>
        # reload_after be \<lparr>h_id = uuid, h_method = method (currentRequest s),
            h_url = url (currentRequest s), h_status = status resp,
            h_response_time = response_time resp, h_created_at = now\<rparr>"
proof -
  note ints = interpolate_headers_calls_set
    [of be "[0..<length (headers (currentRequest s))]" "headers (currentRequest s)"]
  show ?thesis
  proof (cases "activeEnvironment s")
    case None
    with assms show ?thesis
      by (auto simp: send_try_def Let_def case_prod_beta addHistory_calls split: sum.splits)
  next
    case (Some env)
    show ?thesis
    proof (cases "body (currentRequest s) = []")
      case True
      with assms Some ints show ?thesis
        by (auto simp: send_try_def Let_def case_prod_beta addHistory_calls dropWhile_append2
            split: sum.splits option.splits)
    next
      case False
      with assms Some ints show ?thesis
        by (auto simp: send_try_def Let_def case_prod_beta addHistory_calls dropWhile_append2
            split: sum.splits option.splits)
    qed
  qed
qed

lemma send_try_rejected:
  assumes "fst (snd (send_try be uuid now s)) = Some e"
  shows "appended (fst (send_try be uuid now s)) = []
    \<and> (dispatched (fst (send_try be uuid now s)) = []
        \<or> (\<exists>rq. send_http_request be rq = Inl e
              \<and> dropWhile is_interpolate (fst (send_try be uuid now s)) = [SendHttpRequest rq]))"
proof -
  note ints = interpolate_headers_calls_set
    [of be "[0..<length (headers (currentRequest s))]" "headers (currentRequest s)"]
  note intl = interpolate_headers_calls
    [of be "[0..<length (headers (currentRequest s))]" "headers (currentRequest s)"]
  show ?thesis
  proof (cases "activeEnvironment s")
    case None
    with assms show ?thesis
      by (auto simp: send_try_def Let_def case_prod_beta addHistory_calls split: sum.splits)
  next
    case (Some env)
    show ?thesis
    proof (cases "body (currentRequest s) = []")
      case True
      with assms Some ints intl show ?thesis
        by (auto simp: send_try_def Let_def case_prod_beta addHistory_calls dropWhile_append2
            appended_interpolate dispatched_interpolate
            split: sum.splits option.splits)
    next
      case False
      with assms Some ints intl show ?thesis
        by (auto simp: send_try_def Let_def case_prod_beta addHistory_calls dropWhile_append2
            appended_interpolate dispatched_interpolate
            split: sum.splits option.splits)
    qed
  qed
qed

lemma sendRequest_calls:
  "fst (sendRequest be uuid now s) =
     fst (send_try be uuid now (set_currentResponse None (set_isLoading True s)))"
  by (simp add: sendRequest_def case_prod_beta)

lemma sendRequest_result:
  "fst (snd (sendRequest be uuid now s)) =
     fst (snd (send_try be uuid now (set_currentResponse None (set_isLoading True s))))"
  by (simp add: sendRequest_def case_prod_beta)

lemma send_try_interpolations:
  assumes all: "\<forall>t. \<exists>v. interpolate_variables be t = Inr v"
  shows "takeWhile is_interpolate (fst (send_try be uuid now s)) =
     (if activeEnvironment s \<noteq> None
      then InterpolateVariables (url (currentRequest s))
           # map (\<lambda>h. InterpolateVariables (kv_value h)) (headers (currentRequest s))
           @ (if body (currentRequest s) \<noteq> [] then [InterpolateVariables (body (currentRequest s))]
              else [])
      else [])"
proof -
  note ih = interpolate_headers_from [OF all, of 0, simplified]
  note [simp] = resolved_eq [OF all]
  have tw: "takeWhile is_interpolate (map (\<lambda>h. InterpolateVariables (kv_value h)) hs @ ys)
      = map (\<lambda>h. InterpolateVariables (kv_value h)) hs @ takeWhile is_interpolate ys" for hs ys
    by (induction hs) simp_all
  show ?thesis
    by (simp add: send_try_def Let_def ih addHistory_calls case_prod_beta tw
        split: sum.splits)
qed

text \<open>
  C3 (amended). On send with an active environment, when the interpolation command does
  not reject, the request dispatched is the draft with the url resolved, the value of every
  header resolved, enabled or disabled, and the body resolved whenever it is not empty,
  whatever the body type; with no active environment the draft is dispatched as it is.
  The claim as written fails: the send path has no check of \<open>enabled\<close> and none of
  \<open>body_type\<close>, so the value of a disabled header and the body of a draft of body type
  none are dispatched interpolated (the counterexample below).
\<close>

theorem sendRequest_interpolates:
  assumes "\<forall>t. \<exists>v. interpolate_variables be t = Inr v"
  shows "dispatched (fst (sendRequest be uuid now s)) =
     [if activeEnvironment s \<noteq> None
      then (currentRequest s)\<lparr>url := resolved be (url (currentRequest s)),
             headers := map (\<lambda>h. h\<lparr>kv_value := resolved be (kv_value h)\<rparr>) (headers (currentRequest s)),
             body := (if body (currentRequest s) \<noteq> [] then resolved be (body (currentRequest s))
                      else [])\<rparr>
      else currentRequest s]"
  using send_try_dispatched [OF assms, of uuid now "set_currentResponse None (set_isLoading True s)"]
  by (simp add: sendRequest_calls)

lemma ex_interpolate_total: "\<forall>t. \<exists>v. interpolate_variables ex_backend t = Inr v"
  by (simp add: ex_backend_def ex_interpolate_def)

theorem sendRequest_interpolates_witness:
  "(\<forall>t. \<exists>v. interpolate_variables ex_backend t = Inr v)
   \<and> dispatched (fst (sendRequest ex_backend ''h1'' ''2024-01-02'' ex_session)) =
     [ex_draft\<lparr>url := ''https://api.test/login'',
        headers := [\<lparr>kv_key = ''Authorization'', kv_value = ''Bearer abc123'', kv_enabled = True\<rparr>,
          \<lparr>kv_key = ''X-Debug'', kv_value = ''api.test'', kv_enabled = False\<rparr>],
        body := ''api.test''\<rparr>]"
proof -
  have cr: "currentRequest ex_session = ex_draft"
    by (simp add: currentRequest_def ex_session_def tab_at_def ex_tab_def)
  have env: "activeEnvironment ex_session \<noteq> None"
    by (simp add: ex_session_def)
  have r: "resolved ex_backend ''https://{{host}}/login'' = ''https://api.test/login''"
    "resolved ex_backend ''Bearer {{token}}'' = ''Bearer abc123''"
    "resolved ex_backend ''{{host}}'' = ''api.test''"
    by (simp_all add: resolved_def ex_backend_def ex_interpolate_def)
  show ?thesis
    using sendRequest_interpolates [OF ex_interpolate_total, of "''h1''" "''2024-01-02''" ex_session]
      ex_interpolate_total env
    by (simp add: cr r ex_draft_def)
qed

theorem sendRequest_disabled_header_counterexample:
  "length (dispatched (fst (sendRequest ex_backend ''h1'' ''2024-01-02'' ex_session))) = 1
   \<and> headers (currentRequest ex_session) ! 1 =
       \<lparr>kv_key = ''X-Debug'', kv_value = ''{{host}}'', kv_enabled = False\<rparr>
   \<and> headers (hd (dispatched (fst (sendRequest ex_backend ''h1'' ''2024-01-02'' ex_session)))) ! 1 =
       \<lparr>kv_key = ''X-Debug'', kv_value = ''api.test'', kv_enabled = False\<rparr>
   \<and> body_type (currentRequest ex_session) = ''none''
   \<and> body (currentRequest ex_session) = ''{{host}}''
   \<and> body (hd (dispatched (fst (sendRequest ex_backend ''h1'' ''2024-01-02'' ex_session)))) =
       ''api.test''"
  by code_simp

lemma appended_takeWhile [simp]: "appended (takeWhile is_interpolate xs) = []"
  by (induction xs rule: appended.induct) simp_all

lemma dispatched_takeWhile [simp]: "dispatched (takeWhile is_interpolate xs) = []"
  by (induction xs rule: dispatched.induct) simp_all

lemma appended_split:
  "appended xs = appended (dropWhile is_interpolate xs)"
proof -
  have "appended xs = appended (takeWhile is_interpolate xs @ dropWhile is_interpolate xs)"
    by simp
  then show ?thesis
    unfolding appended_append by simp
qed

lemma dispatched_split:
  "dispatched xs = dispatched (dropWhile is_interpolate xs)"
proof -
  have "dispatched xs = dispatched (takeWhile is_interpolate xs @ dropWhile is_interpolate xs)"
    by simp
  then show ?thesis
    unfolding dispatched_append by simp
qed

text \<open>
  C9. In the commands one \<open>sendRequest\<close> issues, everything before the dispatch is an
  interpolation call (of the url, then of the header values in order, then of the body,
  when no interpolation rejects and an environment is active), and nothing after it is.
  When the send completes, the dispatch was answered with a response and is followed by
  exactly one history append, whose method is the draft's method and whose status is the
  response's status, and then by the history reload. When the send throws, no history
  entry is appended: either nothing was dispatched or the dispatch is the last command and
  it rejected with the error thrown.
\<close>

theorem sendRequest_order:
  "(fst (snd (sendRequest be uuid now s)) = None \<longrightarrow>
      (\<exists>rq resp. send_http_request be rq = Inr resp
         \<and> dropWhile is_interpolate (fst (sendRequest be uuid now s)) =
             SendHttpRequest rq
             # AddHistory \<lparr>h_id = uuid, h_method = method (currentRequest s),
                 h_url = url (currentRequest s), h_status = status resp,
                 h_response_time = response_time resp, h_created_at = now\<rparr>
             # reload_after be \<lparr>h_id = uuid, h_method = method (currentRequest s),
                 h_url = url (currentRequest s), h_status = status resp,
                 h_response_time = response_time resp, h_created_at = now\<rparr>
         \<and> appended (fst (sendRequest be uuid now s)) =
             [\<lparr>h_id = uuid, h_method = method (currentRequest s),
               h_url = url (currentRequest s), h_status = status resp,
               h_response_time = response_time resp, h_created_at = now\<rparr>]))
   \<and> (\<forall>e. fst (snd (sendRequest be uuid now s)) = Some e \<longrightarrow>
         appended (fst (sendRequest be uuid now s)) = []
         \<and> (dispatched (fst (sendRequest be uuid now s)) = []
            \<or> (\<exists>rq. send_http_request be rq = Inl e
                  \<and> dropWhile is_interpolate (fst (sendRequest be uuid now s)) =
                      [SendHttpRequest rq])))
   \<and> ((\<forall>t. \<exists>v. interpolate_variables be t = Inr v) \<and> activeEnvironment s \<noteq> None \<longrightarrow>
         takeWhile is_interpolate (fst (sendRequest be uuid now s)) =
           InterpolateVariables (url (currentRequest s))
           # map (\<lambda>h. InterpolateVariables (kv_value h)) (headers (currentRequest s))
           @ (if body (currentRequest s) \<noteq> [] then [InterpolateVariables (body (currentRequest s))]
              else []))"
proof (intro conjI impI allI)
  assume ok: "fst (snd (sendRequest be uuid now s)) = None"
  let ?s0 = "set_currentResponse None (set_isLoading True s)"
  from ok have "fst (snd (send_try be uuid now ?s0)) = None"
    by (simp add: sendRequest_result)
  from send_try_resolved [OF this] obtain rq resp where
    r: "send_http_request be rq = Inr resp"
    and d: "dropWhile is_interpolate (fst (sendRequest be uuid now s)) =
             SendHttpRequest rq
             # AddHistory \<lparr>h_id = uuid, h_method = method (currentRequest s),
                 h_url = url (currentRequest s), h_status = status resp,
                 h_response_time = response_time resp, h_created_at = now\<rparr>
             # reload_after be \<lparr>h_id = uuid, h_method = method (currentRequest s),
                 h_url = url (currentRequest s), h_status = status resp,
                 h_response_time = response_time resp, h_created_at = now\<rparr>"
    by (auto simp: sendRequest_calls)
  have "appended (fst (sendRequest be uuid now s)) =
             [\<lparr>h_id = uuid, h_method = method (currentRequest s),
               h_url = url (currentRequest s), h_status = status resp,
               h_response_time = response_time resp, h_created_at = now\<rparr>]"
    by (subst appended_split) (simp add: d)
  with r d show "\<exists>rq resp. send_http_request be rq = Inr resp
         \<and> dropWhile is_interpolate (fst (sendRequest be uuid now s)) =
             SendHttpRequest rq
             # AddHistory \<lparr>h_id = uuid, h_method = method (currentRequest s),
                 h_url = url (currentRequest s), h_status = status resp,
                 h_response_time = response_time resp, h_created_at = now\<rparr>
             # reload_after be \<lparr>h_id = uuid, h_method = method (currentRequest s),
                 h_url = url (currentRequest s), h_status = status resp,
                 h_response_time = response_time resp, h_created_at = now\<rparr>
         \<and> appended (fst (sendRequest be uuid now s)) =
             [\<lparr>h_id = uuid, h_method = method (currentRequest s),
               h_url = url (currentRequest s), h_status = status resp,
               h_response_time = response_time resp, h_created_at = now\<rparr>]"
    by blast
next
  fix e
  assume "fst (snd (sendRequest be uuid now s)) = Some e"
  then have f: "fst (snd (send_try be uuid now (set_currentResponse None (set_isLoading True s)))) = Some e"
    by (simp add: sendRequest_result)
  from send_try_rejected [OF f]
  show "appended (fst (sendRequest be uuid now s)) = []"
    and "dispatched (fst (sendRequest be uuid now s)) = []
            \<or> (\<exists>rq. send_http_request be rq = Inl e
                  \<and> dropWhile is_interpolate (fst (sendRequest be uuid now s)) =
                      [SendHttpRequest rq])"
    by (simp_all add: sendRequest_calls)
next
  assume "(\<forall>t. \<exists>v. interpolate_variables be t = Inr v) \<and> activeEnvironment s \<noteq> None"
  then show "takeWhile is_interpolate (fst (sendRequest be uuid now s)) =
           InterpolateVariables (url (currentRequest s))
           # map (\<lambda>h. InterpolateVariables (kv_value h)) (headers (currentRequest s))
           @ (if body (currentRequest s) \<noteq> [] then [InterpolateVariables (body (currentRequest s))]
              else [])"
    using send_try_interpolations [of be uuid now "set_currentResponse None (set_isLoading True s)"]
    by (simp add: sendRequest_calls)
qed

text \<open>
  C10. The history entry of a completed send records the url of the draft as stored,
  tokens included, not the resolved url that was dispatched.
\<close>

theorem sendRequest_history_raw_url:
  assumes "fst (snd (sendRequest be uuid now s)) = None"
  shows "map h_url (appended (fst (sendRequest be uuid now s))) = [url (currentRequest s)]"
proof -
  from assms
  have "fst (snd (send_try be uuid now (set_currentResponse None (set_isLoading True s)))) = None"
    by (simp add: sendRequest_result)
  from send_try_resolved [OF this] show ?thesis
    by (subst appended_split) (auto simp: sendRequest_calls)
qed

lemma ex_current: "currentRequest ex_session = ex_draft"
  by (simp add: currentRequest_def ex_session_def tab_at_def ex_tab_def)

theorem sendRequest_order_witness:
  "fst (snd (sendRequest ex_backend ''h1'' ''2024-01-02'' ex_session)) = None
   \<and> appended (fst (sendRequest ex_backend ''h1'' ''2024-01-02'' ex_session)) = [ex_entry]
   \<and> fst (snd (sendRequest ex_backend_refusing ''h1'' ''2024-01-02'' ex_session)) = Some down
   \<and> appended (fst (sendRequest ex_backend_refusing ''h1'' ''2024-01-02'' ex_session)) = []
   \<and> activeEnvironment ex_session \<noteq> None
   \<and> takeWhile is_interpolate (fst (sendRequest ex_backend ''h1'' ''2024-01-02'' ex_session)) =
       [InterpolateVariables ''https://{{host}}/login'', InterpolateVariables ''Bearer {{token}}'',
        InterpolateVariables ''{{host}}'', InterpolateVariables ''{{host}}'']"
proof -
  have ok: "fst (snd (sendRequest ex_backend ''h1'' ''2024-01-02'' ex_session)) = None"
    by code_simp
  have bad: "fst (snd (sendRequest ex_backend_refusing ''h1'' ''2024-01-02'' ex_session)) = Some down"
    by code_simp
  have env: "activeEnvironment ex_session \<noteq> None"
    by (simp add: ex_session_def)
  have resp: "send_http_request ex_backend rq = Inr r \<Longrightarrow> r = ex_response" for rq r
    by (simp add: ex_backend_def)
  note ord = sendRequest_order [of ex_backend "''h1''" "''2024-01-02''" ex_session]
  from ord ok obtain rq r where "send_http_request ex_backend rq = Inr r"
    and "appended (fst (sendRequest ex_backend ''h1'' ''2024-01-02'' ex_session)) =
      [\<lparr>h_id = ''h1'', h_method = method (currentRequest ex_session),
        h_url = url (currentRequest ex_session), h_status = status r,
        h_response_time = response_time r, h_created_at = ''2024-01-02''\<rparr>]"
    by blast
  then have a: "appended (fst (sendRequest ex_backend ''h1'' ''2024-01-02'' ex_session)) = [ex_entry]"
    using resp [of rq r] by (simp add: ex_current ex_draft_def ex_response_def ex_entry_def)
  from ord ex_interpolate_total env
  have t: "takeWhile is_interpolate (fst (sendRequest ex_backend ''h1'' ''2024-01-02'' ex_session)) =
       [InterpolateVariables ''https://{{host}}/login'', InterpolateVariables ''Bearer {{token}}'',
        InterpolateVariables ''{{host}}'', InterpolateVariables ''{{host}}'']"
    by (simp add: ex_current ex_draft_def)
  from sendRequest_order [of ex_backend_refusing "''h1''" "''2024-01-02''" ex_session] bad
  have b: "appended (fst (sendRequest ex_backend_refusing ''h1'' ''2024-01-02'' ex_session)) = []"
    by blast
  from ok a bad b env t show ?thesis
    by blast
qed

theorem sendRequest_history_raw_url_witness:
  "fst (snd (sendRequest ex_backend ''h1'' ''2024-01-02'' ex_session)) = None
   \<and> map h_url (appended (fst (sendRequest ex_backend ''h1'' ''2024-01-02'' ex_session))) =
       [''https://{{host}}/login'']
   \<and> map url (dispatched (fst (sendRequest ex_backend ''h1'' ''2024-01-02'' ex_session))) =
       [''https://api.test/login'']"
proof -
  have ok: "fst (snd (sendRequest ex_backend ''h1'' ''2024-01-02'' ex_session)) = None"
    by code_simp
  have d: "map url (dispatched (fst (sendRequest ex_backend ''h1'' ''2024-01-02'' ex_session))) =
       [''https://api.test/login'']"
    by code_simp
  from sendRequest_history_raw_url [OF ok] ok d show ?thesis
    by (simp add: ex_current ex_draft_def)
qed

text \<open>
  C4. Sending is claimed to leave the stored draft as it was. It does for the url and the
  body, whose interpolated values are local variables. The header array is copied, but the
  header objects are shared with the draft, so the loop overwrites the stored values with
  the resolved ones: after the send of the example, the stored header values are the
  resolved texts, no longer the templates.
\<close>

theorem sendRequest_overwrites_stored_headers:
  "map kv_value (headers (currentRequest ex_session)) = [''Bearer {{token}}'', ''{{host}}'']
   \<and> map kv_value (headers (currentRequest
         (snd (snd (sendRequest ex_backend ''h1'' ''2024-01-02'' ex_session))))) =
       [''Bearer abc123'', ''api.test'']
   \<and> url (currentRequest (snd (snd (sendRequest ex_backend ''h1'' ''2024-01-02'' ex_session)))) =
       ''https://{{host}}/login''
   \<and> body (currentRequest (snd (snd (sendRequest ex_backend ''h1'' ''2024-01-02'' ex_session)))) =
       ''{{host}}''"
  by code_simp

text \<open>
  C5. Editing the draft is claimed to mark the tab dirty. The request builder edits the
  object that the getter of \<open>currentRequest\<close> returns, so the setter, the only place that
  sets \<open>isDirty\<close>, does not run: no edit of the method, the url, the headers or the body
  changes any dirty flag. In the fresh store, adding a header leaves the tab clean.
\<close>

theorem edits_leave_isDirty:
  "map isDirty (openTabs (edit_method v s)) = map isDirty (openTabs s)
   \<and> map isDirty (openTabs (edit_url v s)) = map isDirty (openTabs s)
   \<and> map isDirty (openTabs (edit_body v s)) = map isDirty (openTabs s)
   \<and> map isDirty (openTabs (addHeader h s)) = map isDirty (openTabs s)
   \<and> map isDirty (openTabs (removeHeader i s)) = map isDirty (openTabs s)
   \<and> headers (currentRequest (addHeader \<lparr>kv_key = ''Accept'', kv_value = ''text/html'',
         kv_enabled = True\<rparr> (initial_store ''t1''))) =
       [\<lparr>kv_key = ''Accept'', kv_value = ''text/html'', kv_enabled = True\<rparr>]
   \<and> map isDirty (openTabs (addHeader \<lparr>kv_key = ''Accept'', kv_value = ''text/html'',
         kv_enabled = True\<rparr> (initial_store ''t1''))) = [False]"
proof -
  have e: "map isDirty (openTabs (edit_draft f s)) = map isDirty (openTabs s)" for f
    by (simp add: edit_draft_def openTabs_update_active map_update list_update_same_conv)
  have "headers (currentRequest (addHeader \<lparr>kv_key = ''Accept'', kv_value = ''text/html'',
         kv_enabled = True\<rparr> (initial_store ''t1''))) =
       [\<lparr>kv_key = ''Accept'', kv_value = ''text/html'', kv_enabled = True\<rparr>]"
    by code_simp
  moreover have "map isDirty (openTabs (addHeader \<lparr>kv_key = ''Accept'', kv_value = ''text/html'',
         kv_enabled = True\<rparr> (initial_store ''t1''))) = [False]"
    by code_simp
  ultimately show ?thesis
    by (simp add: e edit_method_def edit_url_def edit_body_def addHeader_def removeHeader_def)
qed

section \<open>Code generation\<close>

lemma occurrences_Nil: "pat \<noteq> [] \<Longrightarrow> occurrences pat [] = 0"
  by simp

lemma take_no_cross:
  assumes "pat \<noteq> []" and "last pat \<noteq> s0" and "b \<notin> set pat"
  shows "(take (length pat) (t @ s0 # b # r) = pat) = (take (length pat) t = pat)"
proof (cases "length pat \<le> length t")
  case True
  then show ?thesis by simp
next
  case False
  then have lt: "length t < length pat" by simp
  have rhs: "take (length pat) t \<noteq> pat"
  proof
    assume "take (length pat) t = pat"
    then have "length (take (length pat) t) = length pat"
      by (rule arg_cong)
    with lt show False
      by simp
  qed
  obtain m where m: "length pat - length t = Suc m"
    using lt by (cases "length pat - length t") simp_all
  have split: "take (length pat) (t @ s0 # b # r) = t @ s0 # take m (b # r)"
    using lt m by (simp add: take_Cons')
  have lhs: "take (length pat) (t @ s0 # b # r) \<noteq> pat"
  proof (cases m)
    case 0
    then have "take (length pat) (t @ s0 # b # r) = t @ [s0]"
      using split by simp
    moreover have "t @ [s0] \<noteq> pat"
      using assms(2) by (metis last_snoc)
    ultimately show ?thesis by simp
  next
    case (Suc k)
    then have "take (length pat) (t @ s0 # b # r) = t @ s0 # b # take k r"
      using split by simp
    moreover have "b \<in> set (t @ s0 # b # take k r)"
      by simp
    ultimately show ?thesis
      using assms(3) by metis
  qed
  from lhs rhs show ?thesis by simp
qed

lemma occurrences_no_cross:
  assumes "pat \<noteq> []" and "last pat \<noteq> s0" and "b \<notin> set pat"
  shows "occurrences pat (t @ s0 # b # r) = occurrences pat t + occurrences pat (s0 # b # r)"
proof (induction t)
  case Nil
  from assms(1) show ?case by simp
next
  case (Cons c t)
  have "(take (length pat) ((c # t) @ s0 # b # r) = pat) = (take (length pat) (c # t) = pat)"
    using assms by (rule take_no_cross)
  with Cons show ?case by simp
qed

lemma occurrences_skip:
  assumes "pat \<noteq> []" and "hd pat \<noteq> c"
  shows "occurrences pat (c # cs) = occurrences pat cs"
proof -
  have "take (length pat) (c # cs) \<noteq> pat"
    using assms by (cases pat) auto
  then show ?thesis by simp
qed

lemma occurrences_join:
  assumes ne: "pat \<noteq> []" and l: "last pat \<noteq> CHR '' ''" and b: "CHR 0x5C \<notin> set pat"
    and h: "hd pat \<noteq> CHR '' ''" "hd pat \<noteq> CHR 0x5C" "hd pat \<noteq> CHR 0x0A"
  shows "occurrences pat (join [CHR '' '', CHR 0x5C, CHR 0x0A, CHR '' '', CHR '' ''] ps) =
    sum_list (map (occurrences pat) ps)"
proof (induction "[CHR '' '', CHR 0x5C, CHR 0x0A, CHR '' '', CHR '' '']" ps rule: join.induct)
  case 1
  from ne show ?case by simp
next
  case (2 p)
  show ?case by simp
next
  case (3 p q qs)
  let ?rest = "join [CHR '' '', CHR 0x5C, CHR 0x0A, CHR '' '', CHR '' ''] (q # qs)"
  have "occurrences pat (p @ CHR '' '' # CHR 0x5C # (CHR 0x0A # CHR '' '' # CHR '' '' # ?rest)) =
      occurrences pat p + occurrences pat (CHR '' '' # CHR 0x5C # (CHR 0x0A # CHR '' '' # CHR '' '' # ?rest))"
    using ne l b by (rule occurrences_no_cross)
  also have "occurrences pat (CHR '' '' # CHR 0x5C # (CHR 0x0A # CHR '' '' # CHR '' '' # ?rest)) =
      occurrences pat ?rest"
    using ne h by (simp add: occurrences_skip del: occurrences.simps)
  finally show ?case
    using 3 by simp
qed

lemma flag_shape:
  "header_flag ''Content-Type'' ''application/json'' \<noteq> []"
  "last (header_flag ''Content-Type'' ''application/json'') \<noteq> CHR '' ''"
  "CHR 0x5C \<notin> set (header_flag ''Content-Type'' ''application/json'')"
  "hd (header_flag ''Content-Type'' ''application/json'') \<noteq> CHR '' ''"
  "hd (header_flag ''Content-Type'' ''application/json'') \<noteq> CHR 0x5C"
  "hd (header_flag ''Content-Type'' ''application/json'') \<noteq> CHR 0x0A"
  by (simp_all add: header_flag_def quoted_def quote_def)

lemma flag_in_itself:
  "occurrences (header_flag ''Content-Type'' ''application/json'')
     (header_flag ''Content-Type'' ''application/json'') = 1"
  by code_simp

lemma own_parts_snoc:
  "own_parts s =
     ([''curl''] @ (if method (currentRequest s) \<noteq> ''GET'' then [''-X '' @ method (currentRequest s)] else [])
        @ header_parts (currentRequest s) @ auth_parts (currentRequest s)
        @ (if body (currentRequest s) \<noteq> [] \<and> body_type (currentRequest s) \<noteq> ''none''
           then [''-d '' @ quoted (escape_quotes (body (currentRequest s)))] else []))
     @ [quoted (url (currentRequest s))]"
  by (simp only: own_parts_def Let_def append_assoc)

lemma body_parts_split:
  "body_parts d =
      (if body d \<noteq> [] \<and> body_type d \<noteq> ''none''
       then [''-d '' @ quoted (escape_quotes (body d))] else [])
      @ (if body d \<noteq> [] \<and> body_type d = ''json'' \<and> \<not> hasContentType d
         then [header_flag ''Content-Type'' ''application/json''] else [])"
proof (cases "body_type d = ''json''")
  case True
  then have "body_type d \<noteq> ''none''" by simp
  with True show ?thesis
    unfolding body_parts_def by (cases "body d = []"; cases "hasContentType d"; simp)
next
  case False
  then show ?thesis
    unfolding body_parts_def by (cases "body d = []"; cases "body_type d = ''none''"; simp)
qed

lemma generateCurl_parts_snoc:
  "generateCurl_parts s =
     ([''curl''] @ (if method (currentRequest s) \<noteq> ''GET'' then [''-X '' @ method (currentRequest s)] else [])
        @ header_parts (currentRequest s) @ auth_parts (currentRequest s)
        @ (if body (currentRequest s) \<noteq> [] \<and> body_type (currentRequest s) \<noteq> ''none''
           then [''-d '' @ quoted (escape_quotes (body (currentRequest s)))] else []))
     @ (if body (currentRequest s) \<noteq> [] \<and> body_type (currentRequest s) = ''json''
           \<and> \<not> hasContentType (currentRequest s)
        then [header_flag ''Content-Type'' ''application/json''] else [])
     @ [quoted (url (currentRequest s))]"
  by (simp only: generateCurl_parts_def Let_def body_parts_split append_assoc)

lemma inject_before_last:
  "xs @ (if c then [a] else []) @ [u] =
     (if c then butlast (xs @ [u]) @ [a, last (xs @ [u])] else xs @ [u])"
  by simp

lemma sum_inject:
  "sum_list (map f (xs @ (if c then [a] else []) @ [u])) =
     (if c then f a else (0::nat)) + sum_list (map f (xs @ [u]))"
  by simp

lemma generateCurl_parts_own:
  "generateCurl_parts s =
     (if body (currentRequest s) \<noteq> [] \<and> body_type (currentRequest s) = ''json''
         \<and> \<not> hasContentType (currentRequest s)
      then butlast (own_parts s)
           @ [header_flag ''Content-Type'' ''application/json'', last (own_parts s)]
      else own_parts s)"
  unfolding own_parts_snoc generateCurl_parts_snoc by (rule inject_before_last)

lemma sum_parts_own:
  "sum_list (map f (generateCurl_parts s)) =
     (if body (currentRequest s) \<noteq> [] \<and> body_type (currentRequest s) = ''json''
         \<and> \<not> hasContentType (currentRequest s)
      then f (header_flag ''Content-Type'' ''application/json'') else (0::nat))
     + sum_list (map f (own_parts s))"
  unfolding own_parts_snoc generateCurl_parts_snoc by (rule sum_inject)

lemma generateCurl_occurrences:
  "occurrences (header_flag ''Content-Type'' ''application/json'') (generateCurl s) =
     (if body (currentRequest s) \<noteq> [] \<and> body_type (currentRequest s) = ''json''
         \<and> \<not> hasContentType (currentRequest s) then 1 else 0)
     + sum_list (map (occurrences (header_flag ''Content-Type'' ''application/json''))
         (own_parts s))"
proof -
  let ?auto = "header_flag ''Content-Type'' ''application/json''"
  have "occurrences ?auto (generateCurl s) =
      sum_list (map (occurrences ?auto) (generateCurl_parts s))"
    unfolding generateCurl_def by (rule occurrences_join) (rule flag_shape)+
  also have "\<dots> = (if body (currentRequest s) \<noteq> [] \<and> body_type (currentRequest s) = ''json''
         \<and> \<not> hasContentType (currentRequest s)
      then occurrences ?auto ?auto else (0::nat))
     + sum_list (map (occurrences ?auto) (own_parts s))"
    by (rule sum_parts_own)
  finally show ?thesis
    unfolding flag_in_itself .
qed

text \<open>
  C8 (amended). For every draft, the command string of \<open>generateCurl\<close> contains
  \<open>-H 'Content-Type: application/json'\<close> as often as the draft's own parts spell it
  (method, header flags, auth flag, body flag, url), plus once when the flag is injected,
  which happens exactly for a non-empty body of body type json with no enabled header named
  Content-Type in any letter case; the flag is then the part before the url. So such a
  draft yields the text exactly once whenever none of its own parts spells it. With an empty
  body nothing is injected, and an enabled Content-Type header suppresses the injection:
  the parts are the draft's own. The claim as written fails in three ways, each by design
  (the counterexample below): an empty body of type json gets no flag, since the injection
  sits inside the guard on a non-empty body; a url that spells the text and an API-key auth
  that is that header each give two occurrences, since nothing but the enabled headers is
  checked.
\<close>

theorem generateCurl_content_type:
  "generateCurl_parts s =
     (if body (currentRequest s) \<noteq> [] \<and> body_type (currentRequest s) = ''json''
         \<and> \<not> hasContentType (currentRequest s)
      then butlast (own_parts s)
           @ [header_flag ''Content-Type'' ''application/json'', last (own_parts s)]
      else own_parts s)
   \<and> occurrences (header_flag ''Content-Type'' ''application/json'') (generateCurl s) =
       (if body (currentRequest s) \<noteq> [] \<and> body_type (currentRequest s) = ''json''
           \<and> \<not> hasContentType (currentRequest s) then 1 else 0)
       + sum_list (map (occurrences (header_flag ''Content-Type'' ''application/json''))
           (own_parts s))
   \<and> (body_type (currentRequest s) = ''json'' \<and> body (currentRequest s) \<noteq> []
        \<and> \<not> hasContentType (currentRequest s)
        \<and> (\<forall>p\<in>set (own_parts s).
              occurrences (header_flag ''Content-Type'' ''application/json'') p = 0)
       \<longrightarrow> occurrences (header_flag ''Content-Type'' ''application/json'') (generateCurl s) = 1)
   \<and> (body (currentRequest s) = [] \<longrightarrow>
         body_parts (currentRequest s) = [] \<and> generateCurl_parts s = own_parts s)
   \<and> (hasContentType (currentRequest s) \<longrightarrow>
         header_flag ''Content-Type'' ''application/json'' \<notin> set (body_parts (currentRequest s))
         \<and> generateCurl_parts s = own_parts s)"
proof (intro conjI impI)
  let ?auto = "header_flag ''Content-Type'' ''application/json''"
  let ?d = "currentRequest s"
  show "generateCurl_parts s =
     (if body ?d \<noteq> [] \<and> body_type ?d = ''json'' \<and> \<not> hasContentType ?d
      then butlast (own_parts s) @ [?auto, last (own_parts s)]
      else own_parts s)"
    by (rule generateCurl_parts_own)
  show "occurrences ?auto (generateCurl s) =
       (if body ?d \<noteq> [] \<and> body_type ?d = ''json'' \<and> \<not> hasContentType ?d then 1 else 0)
       + sum_list (map (occurrences ?auto) (own_parts s))"
    by (rule generateCurl_occurrences)
  {
    assume h: "body_type ?d = ''json'' \<and> body ?d \<noteq> [] \<and> \<not> hasContentType ?d
        \<and> (\<forall>p\<in>set (own_parts s). occurrences ?auto p = 0)"
    then have "sum_list (map (occurrences ?auto) (own_parts s)) = 0"
      by simp
    with h show "occurrences ?auto (generateCurl s) = 1"
      by (simp only: generateCurl_occurrences) simp
  }
  {
    assume "body ?d = []"
    then show "body_parts ?d = []" and "generateCurl_parts s = own_parts s"
      by (simp_all add: body_parts_def generateCurl_parts_own)
  }
  {
    assume h: "hasContentType ?d"
    then show "generateCurl_parts s = own_parts s"
      by (simp add: generateCurl_parts_own)
    from h show "?auto \<notin> set (body_parts ?d)"
      by (simp add: body_parts_split header_flag_def)
  }
qed

theorem generateCurl_counterexample:
  "body_type (currentRequest ex_post) = ''json''
   \<and> body_type (currentRequest ex_post_url) = ''json''
   \<and> body_type (currentRequest ex_post_apikey) = ''json''
   \<and> headers (currentRequest ex_post) = []
   \<and> headers (currentRequest ex_post_url) = []
   \<and> headers (currentRequest ex_post_apikey) = []
   \<and> occurrences (header_flag ''Content-Type'' ''application/json'') (generateCurl ex_post) = 0
   \<and> occurrences (header_flag ''Content-Type'' ''application/json'') (generateCurl ex_post_url) = 2
   \<and> occurrences (header_flag ''Content-Type'' ''application/json'') (generateCurl ex_post_apikey)
       = 2"
  by code_simp

theorem generateCurl_content_type_witness:
  "body_type (currentRequest ex_post_body) = ''json''
   \<and> body (currentRequest ex_post_body) \<noteq> []
   \<and> \<not> hasContentType (currentRequest ex_post_body)
   \<and> occurrences (header_flag ''Content-Type'' ''application/json'') (generateCurl ex_post_body)
       = 1
   \<and> body (currentRequest ex_post) = []
   \<and> generateCurl_parts ex_post = own_parts ex_post
   \<and> hasContentType (currentRequest ex_post_manual)
   \<and> generateCurl_parts ex_post_manual = own_parts ex_post_manual"
proof -
  have a: "body_type (currentRequest ex_post_body) = ''json''"
    "body (currentRequest ex_post_body) \<noteq> []"
    "\<not> hasContentType (currentRequest ex_post_body)"
    by code_simp+
  have "list_all (\<lambda>p. occurrences (header_flag ''Content-Type'' ''application/json'') p = 0)
      (own_parts ex_post_body)"
    by code_simp
  then have own: "\<forall>p\<in>set (own_parts ex_post_body).
      occurrences (header_flag ''Content-Type'' ''application/json'') p = 0"
    by (simp only: list_all_iff)
  have b: "body (currentRequest ex_post) = []"
    by code_simp
  have c: "hasContentType (currentRequest ex_post_manual)"
    by code_simp
  from generateCurl_content_type [of ex_post_body] a own
  have one: "occurrences (header_flag ''Content-Type'' ''application/json'')
      (generateCurl ex_post_body) = 1"
    by blast
  from generateCurl_content_type [of ex_post] b
  have two: "generateCurl_parts ex_post = own_parts ex_post"
    by blast
  from generateCurl_content_type [of ex_post_manual] c
  have three: "generateCurl_parts ex_post_manual = own_parts ex_post_manual"
    by blast
  from a one b two c three show ?thesis
    by blast
qed

section \<open>The collection tree\<close>






declare buildTree.simps(2) [simp del]



lemma nodes_request_node [simp]: "nodes (request_node r) = [request_node r]"
  by (simp add: request_node_def)

lemma nodes_folder_node [simp]:
  "nodes (folder_node f ch) = folder_node f ch # concat (map nodes ch)"
  by (simp add: folder_node_def)




section \<open>Persistence and the mirrors\<close>

lemma load_each_calls:
  "fst (load_each be cs s) = map (\<lambda>c. GetRequestsByCollection (c_id c)) cs"
  by (induction cs arbitrary: s) (simp_all add: case_prod_beta loadRequestsByCollection_def)

lemma load_each_frame:
  "collections (snd (load_each be cs s)) = collections s"
  "environments (snd (load_each be cs s)) = environments s"
  by (induction cs arbitrary: s)
    (simp_all add: case_prod_beta loadRequestsByCollection_def split: sum.splits)

lemma mirrors_update_active [simp]: "mirrors (update_active f s) = mirrors s"
  by (simp add: mirrors_def)

lemma mirrors_setters [simp]:
  "mirrors (set_selectedRequestId v s) = mirrors s"
  "mirrors (set_currentRequest d s) = mirrors s"
  "mirrors (set_currentResponse r s) = mirrors s"
  "mirrors (resetCurrentRequest s) = mirrors s"
  by (simp_all add: set_selectedRequestId_def set_currentRequest_def set_currentResponse_def
      resetCurrentRequest_def)

lemma createCollection_protocol:
  "write_then_reload
     (CreateCollection \<lparr>c_id = uuid, c_name = name, c_parent_id = parentId,
        c_is_folder = isFolder, c_created_at = now\<rparr>)
     (create_collection be \<lparr>c_id = uuid, c_name = name, c_parent_id = parentId,
        c_is_folder = isFolder, c_created_at = now\<rparr>)
     (loadCollections be) s (createCollection be uuid now name parentId isFolder s)"
  by (simp add: write_then_reload_def createCollection_def Let_def case_prod_beta
      split: sum.splits)

lemma deleteCollection_protocol:
  "write_then_reload (DeleteCollection ident) (delete_collection be ident)
     (loadCollections be) s (deleteCollection be ident s)"
  by (simp add: write_then_reload_def deleteCollection_def case_prod_beta split: sum.splits)

lemma saveCurrentRequest_protocol:
  "write_then_reload
     (SaveRequest \<lparr>r_id = (case selectedRequestId s of None \<Rightarrow> uuid | Some i \<Rightarrow> i),
        r_collection_id = collectionId, r_name = name, r_method = method (currentRequest s),
        r_url = url (currentRequest s),
        r_headers = stringify_headers js (headers (currentRequest s)),
        r_body = body (currentRequest s), r_body_type = body_type (currentRequest s),
        r_auth_type = auth_type (currentRequest s),
        r_auth_data = stringify_auth js (auth_data (currentRequest s)), r_created_at = now,
        r_updated_at = now\<rparr>)
     (save_request be \<lparr>r_id = (case selectedRequestId s of None \<Rightarrow> uuid | Some i \<Rightarrow> i),
        r_collection_id = collectionId, r_name = name, r_method = method (currentRequest s),
        r_url = url (currentRequest s),
        r_headers = stringify_headers js (headers (currentRequest s)),
        r_body = body (currentRequest s), r_body_type = body_type (currentRequest s),
        r_auth_type = auth_type (currentRequest s),
        r_auth_data = stringify_auth js (auth_data (currentRequest s)), r_created_at = now,
        r_updated_at = now\<rparr>)
     (loadRequestsByCollection be collectionId) s
     (saveCurrentRequest be js uuid now name collectionId s)"
  by (simp add: write_then_reload_def saveCurrentRequest_def Let_def case_prod_beta
      split: sum.splits)

lemma deleteRequest_protocol:
  "write_then_reload (DeleteRequest ident) (delete_request be ident)
     (loadRequestsByCollection be collectionId) s (deleteRequest be ident collectionId s)"
  by (simp add: write_then_reload_def deleteRequest_def case_prod_beta split: sum.splits)

lemma saveEnvironment_protocol:
  "write_then_reload
     (SaveEnvironment \<lparr>e_id = uuid, e_name = name,
        e_variables = stringify_variables js variables, e_is_active = isActive,
        e_created_at = now\<rparr>)
     (save_environment be \<lparr>e_id = uuid, e_name = name,
        e_variables = stringify_variables js variables, e_is_active = isActive,
        e_created_at = now\<rparr>)
     (loadEnvironments be) s (saveEnvironment be js uuid now name variables isActive s)"
  by (simp add: write_then_reload_def saveEnvironment_def Let_def case_prod_beta
      split: sum.splits)

lemma updateEnvironment_protocol:
  "case find (\<lambda>e. e_id e = ident) (environments s) of
     None \<Rightarrow> updateEnvironment be js ident name variables s = ([], s)
   | Some env \<Rightarrow>
       write_then_reload
         (SaveEnvironment (env\<lparr>e_name := name, e_variables := stringify_variables js variables\<rparr>))
         (save_environment be (env\<lparr>e_name := name,
            e_variables := stringify_variables js variables\<rparr>))
         (loadEnvironments be) s (updateEnvironment be js ident name variables s)"
  by (simp add: write_then_reload_def updateEnvironment_def Let_def case_prod_beta
      split: sum.splits option.splits)

lemma setActiveEnvironment_protocol:
  "case find (\<lambda>e. e_id e = ident) (environments s) of
     None \<Rightarrow> setActiveEnvironment be ident s = ([], s)
   | Some env \<Rightarrow>
       write_then_reload (SaveEnvironment (env\<lparr>e_is_active := True\<rparr>))
         (save_environment be (env\<lparr>e_is_active := True\<rparr>))
         (loadEnvironments be) s (setActiveEnvironment be ident s)"
  by (simp add: write_then_reload_def setActiveEnvironment_def Let_def case_prod_beta
      split: sum.splits option.splits)

lemma deleteEnvironment_protocol:
  "write_then_reload (DeleteEnvironment ident) (delete_environment be ident)
     (loadEnvironments be) s (deleteEnvironment be ident s)"
  by (simp add: write_then_reload_def deleteEnvironment_def case_prod_beta split: sum.splits)

lemma loadCollections_full:
  "get_all_collections be = Inr result \<Longrightarrow>
     fst (loadCollections be s) =
       GetAllCollections # map (\<lambda>c. GetRequestsByCollection (c_id c)) result
     \<and> collections (snd (loadCollections be s)) = result"
  by (simp add: loadCollections_def case_prod_beta load_each_calls load_each_frame)

lemma loadRequestsByCollection_full:
  "get_requests_by_collection be collectionId = Inr result \<Longrightarrow>
     fst (loadRequestsByCollection be collectionId s) = [GetRequestsByCollection collectionId]
     \<and> map_of (requests (snd (loadRequestsByCollection be collectionId s))) collectionId
         = Some result"
  by (simp add: loadRequestsByCollection_def update_conv')

lemma loadEnvironments_full:
  "get_all_environments be = Inr result \<Longrightarrow>
     fst (loadEnvironments be s) = [GetAllEnvironments]
     \<and> environments (snd (loadEnvironments be s)) = result"
  by (simp add: loadEnvironments_def)

text \<open>
  C6. Each mutating store action follows the write-then-reload protocol: creating and
  deleting a collection with the reload of all collections, saving and deleting a request
  with the reload of the one collection's requests, saving, updating, activating and
  deleting an environment with the reload of all environments. The persistence command is
  the first command issued; if it rejects, no reload is issued and the store, so every
  mirror, is exactly as before; if it is accepted, the reload always follows. Updating and
  activating an environment act on the environment of that id in the mirror, and are
  no-ops that issue nothing when there is none. A reload that succeeds replaces the whole
  list by the backend's answer: all collections (followed by the requests of each), the
  requests of the collection, all environments.
\<close>

theorem mutations_write_then_reload:
  "write_then_reload
     (CreateCollection \<lparr>c_id = uuid, c_name = name, c_parent_id = parentId,
        c_is_folder = isFolder, c_created_at = now\<rparr>)
     (create_collection be \<lparr>c_id = uuid, c_name = name, c_parent_id = parentId,
        c_is_folder = isFolder, c_created_at = now\<rparr>)
     (loadCollections be) s (createCollection be uuid now name parentId isFolder s)
   \<and> write_then_reload (DeleteCollection ident) (delete_collection be ident)
     (loadCollections be) s (deleteCollection be ident s)
   \<and> write_then_reload
     (SaveRequest \<lparr>r_id = (case selectedRequestId s of None \<Rightarrow> uuid | Some i \<Rightarrow> i),
        r_collection_id = collectionId, r_name = name, r_method = method (currentRequest s),
        r_url = url (currentRequest s),
        r_headers = stringify_headers js (headers (currentRequest s)),
        r_body = body (currentRequest s), r_body_type = body_type (currentRequest s),
        r_auth_type = auth_type (currentRequest s),
        r_auth_data = stringify_auth js (auth_data (currentRequest s)), r_created_at = now,
        r_updated_at = now\<rparr>)
     (save_request be \<lparr>r_id = (case selectedRequestId s of None \<Rightarrow> uuid | Some i \<Rightarrow> i),
        r_collection_id = collectionId, r_name = name, r_method = method (currentRequest s),
        r_url = url (currentRequest s),
        r_headers = stringify_headers js (headers (currentRequest s)),
        r_body = body (currentRequest s), r_body_type = body_type (currentRequest s),
        r_auth_type = auth_type (currentRequest s),
        r_auth_data = stringify_auth js (auth_data (currentRequest s)), r_created_at = now,
        r_updated_at = now\<rparr>)
     (loadRequestsByCollection be collectionId) s
     (saveCurrentRequest be js uuid now name collectionId s)
   \<and> write_then_reload (DeleteRequest ident) (delete_request be ident)
     (loadRequestsByCollection be collectionId) s (deleteRequest be ident collectionId s)
   \<and> write_then_reload
     (SaveEnvironment \<lparr>e_id = uuid, e_name = name,
        e_variables = stringify_variables js variables, e_is_active = isActive,
        e_created_at = now\<rparr>)
     (save_environment be \<lparr>e_id = uuid, e_name = name,
        e_variables = stringify_variables js variables, e_is_active = isActive,
        e_created_at = now\<rparr>)
     (loadEnvironments be) s (saveEnvironment be js uuid now name variables isActive s)
   \<and> (case find (\<lambda>e. e_id e = ident) (environments s) of
         None \<Rightarrow> updateEnvironment be js ident name variables s = ([], s)
       | Some env \<Rightarrow>
           write_then_reload
             (SaveEnvironment (env\<lparr>e_name := name,
                e_variables := stringify_variables js variables\<rparr>))
             (save_environment be (env\<lparr>e_name := name,
                e_variables := stringify_variables js variables\<rparr>))
             (loadEnvironments be) s (updateEnvironment be js ident name variables s))
   \<and> (case find (\<lambda>e. e_id e = ident) (environments s) of
         None \<Rightarrow> setActiveEnvironment be ident s = ([], s)
       | Some env \<Rightarrow>
           write_then_reload (SaveEnvironment (env\<lparr>e_is_active := True\<rparr>))
             (save_environment be (env\<lparr>e_is_active := True\<rparr>))
             (loadEnvironments be) s (setActiveEnvironment be ident s))
   \<and> write_then_reload (DeleteEnvironment ident) (delete_environment be ident)
     (loadEnvironments be) s (deleteEnvironment be ident s)
   \<and> (get_all_collections be = Inr cs \<longrightarrow>
         fst (loadCollections be s) =
           GetAllCollections # map (\<lambda>c. GetRequestsByCollection (c_id c)) cs
         \<and> collections (snd (loadCollections be s)) = cs)
   \<and> (get_requests_by_collection be collectionId = Inr rs \<longrightarrow>
         fst (loadRequestsByCollection be collectionId s) = [GetRequestsByCollection collectionId]
         \<and> map_of (requests (snd (loadRequestsByCollection be collectionId s))) collectionId
             = Some rs)
   \<and> (get_all_environments be = Inr es \<longrightarrow>
         fst (loadEnvironments be s) = [GetAllEnvironments]
         \<and> environments (snd (loadEnvironments be s)) = es)"
  by (intro conjI impI createCollection_protocol deleteCollection_protocol
      saveCurrentRequest_protocol deleteRequest_protocol saveEnvironment_protocol
      updateEnvironment_protocol setActiveEnvironment_protocol deleteEnvironment_protocol
      loadCollections_full [THEN conjunct1] loadCollections_full [THEN conjunct2]
      loadRequestsByCollection_full [THEN conjunct1] loadRequestsByCollection_full [THEN conjunct2]
      loadEnvironments_full [THEN conjunct1] loadEnvironments_full [THEN conjunct2])

theorem mutations_write_then_reload_witness:
  "createCollection ex_backend_down ''f9'' ''2024-01-03'' ''Drafts'' None True ex_session =
     ([CreateCollection \<lparr>c_id = ''f9'', c_name = ''Drafts'', c_parent_id = None,
         c_is_folder = True, c_created_at = ''2024-01-03''\<rparr>], ex_session)
   \<and> deleteRequest ex_backend_down ''r1'' ''f1'' ex_session = ([DeleteRequest ''r1''], ex_session)
   \<and> setActiveEnvironment ex_backend_down ''env1'' ex_session =
       ([SaveEnvironment ex_env], ex_session)
   \<and> get_all_collections ex_backend = Inr [ex_folder]
   \<and> fst (createCollection ex_backend ''f9'' ''2024-01-03'' ''Drafts'' None True ex_session) =
       [CreateCollection \<lparr>c_id = ''f9'', c_name = ''Drafts'', c_parent_id = None,
          c_is_folder = True, c_created_at = ''2024-01-03''\<rparr>,
        GetAllCollections, GetRequestsByCollection ''f1'']
   \<and> collections (snd (createCollection ex_backend ''f9'' ''2024-01-03'' ''Drafts'' None True
         ex_session)) = [ex_folder]"
proof -
  have got: "get_all_collections ex_backend = Inr [ex_folder]"
    by (simp add: ex_backend_def)
  have fnd: "find (\<lambda>e. e_id e = ''env1'') (environments ex_session) = Some ex_env"
    by (simp add: ex_session_def ex_env_def)
  have act: "ex_env\<lparr>e_is_active := True\<rparr> = ex_env"
    by (simp add: ex_env_def)
  note down = mutations_write_then_reload [where be = ex_backend_down and s = ex_session
      and uuid = "''f9''" and now = "''2024-01-03''" and name = "''Drafts''" and parentId = None
      and isFolder = True and ident = "''r1''" and collectionId = "''f1''"]
  note down_env = mutations_write_then_reload [where be = ex_backend_down and s = ex_session
      and ident = "''env1''"]
  note up = mutations_write_then_reload [where be = ex_backend and s = ex_session
      and uuid = "''f9''" and now = "''2024-01-03''" and name = "''Drafts''" and parentId = None
      and isFolder = True and cs = "[ex_folder]"]
  from down have a: "createCollection ex_backend_down ''f9'' ''2024-01-03'' ''Drafts'' None True
      ex_session =
     ([CreateCollection \<lparr>c_id = ''f9'', c_name = ''Drafts'', c_parent_id = None,
         c_is_folder = True, c_created_at = ''2024-01-03''\<rparr>], ex_session)"
    and b: "deleteRequest ex_backend_down ''r1'' ''f1'' ex_session = ([DeleteRequest ''r1''], ex_session)"
    by (simp_all add: write_then_reload_def ex_backend_down_def)
  from down_env fnd have c: "setActiveEnvironment ex_backend_down ''env1'' ex_session =
       ([SaveEnvironment ex_env], ex_session)"
    by (simp add: write_then_reload_def ex_backend_down_def act)
  from up got have d: "fst (createCollection ex_backend ''f9'' ''2024-01-03'' ''Drafts'' None True
        ex_session) =
       [CreateCollection \<lparr>c_id = ''f9'', c_name = ''Drafts'', c_parent_id = None,
          c_is_folder = True, c_created_at = ''2024-01-03''\<rparr>,
        GetAllCollections, GetRequestsByCollection ''f1'']"
    and e: "collections (snd (createCollection ex_backend ''f9'' ''2024-01-03'' ''Drafts'' None True
         ex_session)) = [ex_folder]"
    by (simp_all add: write_then_reload_def mirrors_def ex_backend_def ex_folder_def)
  from a b c got d e show ?thesis
    by blast
qed

end
